theory Spec2Isabelle
  imports Main "HOL-Library.Monad_Syntax"
begin

section \<open>Values, documents and the outside world\<close>

text \<open>
  The backend of \<^verbatim>\<open>backend/server.py\<close> moves Python dictionaries between three places:
  the JSON body of a request, the pydantic models and the collections of the document
  store. One type of values serves all three. A \<^verbatim>\<open>datetime\<close> is naive UTC, held as
  the number of microseconds since the epoch (the resolution of \<^verbatim>\<open>datetime.utcnow()\<close>).
  A dictionary is an association list with distinct keys, read with \<open>map_of\<close>.
\<close>

datatype pyval =
    PyNone
  | PyBool bool
  | PyInt int
  | PyStr string
  | PyList "pyval list"
  | PyDict "(string \<times> pyval) list"
  | PyDatetime nat

type_synonym pydict = "(string \<times> pyval) list"

text \<open>
  What a handler can fail with: FastAPI answers 422 when the body does not validate
  against the declared input model (the handler is then never called), an
  \<^verbatim>\<open>HTTPException\<close> carries its own status, and a pydantic \<^verbatim>\<open>ValidationError\<close> raised
  inside a handler is an unhandled exception, answered with 500.
\<close>

datatype failure =
    RequestValidationError
  | ValidationError
  | HTTPException nat string

fun status_code :: "failure \<Rightarrow> nat" where
  "status_code RequestValidationError = 422"
| "status_code ValidationError = 500"
| "status_code (HTTPException c detail) = c"

text \<open>
  The state a request runs in: the two collections of the store (\<^verbatim>\<open>db.projects\<close>,
  \<^verbatim>\<open>db.status_checks\<close>, in insertion order), and the two sources of the values the
  server makes up itself. \<^verbatim>\<open>str(uuid.uuid4())\<close> and \<^verbatim>\<open>datetime.utcnow()\<close> read the
  operating system; here each is the sequence of the values it is going to return,
  with the number of calls made so far.
\<close>

record world =
  projects :: "pydict list"
  status_checks :: "pydict list"
  uuid4_source :: "nat \<Rightarrow> string"
  uuid4_calls :: nat
  utcnow_source :: "nat \<Rightarrow> nat"
  utcnow_calls :: nat

definition uuid4 :: "world \<Rightarrow> string \<times> world" where
  "uuid4 w = (uuid4_source w (uuid4_calls w), w\<lparr>uuid4_calls := Suc (uuid4_calls w)\<rparr>)"

definition utcnow :: "world \<Rightarrow> nat \<times> world" where
  "utcnow w = (utcnow_source w (utcnow_calls w), w\<lparr>utcnow_calls := Suc (utcnow_calls w)\<rparr>)"

section \<open>The document store\<close>

text \<open>
  The store (MongoDB, through the \<^verbatim>\<open>motor\<close> driver) keeps BSON. The date type of BSON
  is a 64-bit count of milliseconds since the epoch, so the driver writes a
  \<^verbatim>\<open>datetime\<close> without what it has below the millisecond (\<^verbatim>\<open>microsecond // 1000\<close>), and
  reads it back as a naive UTC \<^verbatim>\<open>datetime\<close>; strings, booleans, null and lists of them
  come back as they went in. \<open>bson\<close> is a value as it is read back after having been
  written. (The \<^verbatim>\<open>_id\<close> key that the driver adds to every document is left out: both
  readers build \<^verbatim>\<open>Project(**doc)\<close>, which ignores keys outside the model, and no
  filter of the handlers mentions it.)
\<close>

fun bson :: "pyval \<Rightarrow> pyval" where
  "bson (PyDatetime t) = PyDatetime (t div 1000 * 1000)"
| "bson (PyList xs) = PyList (map bson xs)"
| "bson (PyDict kvs) = PyDict (map (\<lambda>(k, v). (k, bson v)) kvs)"
| "bson v = v"

definition bson_doc :: "pydict \<Rightarrow> pydict" where
  "bson_doc d = map (\<lambda>(k, v). (k, bson v)) d"

text \<open>
  A filter is a dictionary: a document matches when it has every key of the filter
  with the filter's value, so the empty filter \<^verbatim>\<open>{}\<close> matches every document. The
  handlers use \<^verbatim>\<open>{}\<close> and \<^verbatim>\<open>{"id": project_id}\<close> only.
\<close>

definition matches :: "pydict \<Rightarrow> pydict \<Rightarrow> bool" where
  "matches flt d = list_all (\<lambda>(k, v). map_of d k = Some v) flt"

definition insert_one :: "pydict \<Rightarrow> pydict list \<Rightarrow> pydict list" where
  "insert_one d coll = coll @ [bson_doc d]"

text \<open>\<^verbatim>\<open>find().to_list(n)\<close>: the first \<open>n\<close> documents.\<close>

definition find_to_list :: "nat \<Rightarrow> pydict list \<Rightarrow> pydict list" where
  "find_to_list n coll = take n coll"

text \<open>\<^verbatim>\<open>find_one(flt)\<close>: the first matching document, or \<^verbatim>\<open>None\<close>.\<close>

fun find_one :: "pydict \<Rightarrow> pydict list \<Rightarrow> pydict option" where
  "find_one flt [] = None"
| "find_one flt (d # ds) = (if matches flt d then Some d else find_one flt ds)"

text \<open>
  \<^verbatim>\<open>delete_one(flt)\<close> removes the first matching document; the first component of the
  result is \<^verbatim>\<open>deleted_count\<close>.
\<close>

fun delete_one :: "pydict \<Rightarrow> pydict list \<Rightarrow> nat \<times> pydict list" where
  "delete_one flt [] = (0, [])"
| "delete_one flt (d # ds) =
     (if matches flt d then (1, ds)
      else (case delete_one flt ds of (n, ds') \<Rightarrow> (n, d # ds')))"

definition delete_many :: "pydict \<Rightarrow> pydict list \<Rightarrow> nat \<times> pydict list" where
  "delete_many flt coll =
     (length (filter (matches flt) coll), filter (\<lambda>d. \<not> matches flt d) coll)"

section \<open>The models\<close>

text \<open>
  One validator for each field declaration of the models. A field declared \<^verbatim>\<open>str\<close>
  takes a string and \<^verbatim>\<open>List[str]\<close> a list of strings; \<^verbatim>\<open>Optional[str] = None\<close> may
  be missing or null, and is \<^verbatim>\<open>None\<close> in both cases; \<^verbatim>\<open>bool = False\<close> is false when
  missing. \<open>None\<close> as a result is the validation error. Conversions that the
  validation library may apply to a value of another type (a string such as
  \<^verbatim>\<open>"true"\<close> for a \<^verbatim>\<open>bool\<close>, say) are not part of the model: each field takes the
  values of its declared type. Keys that a model does not declare are never looked at
  (no model sets \<^verbatim>\<open>extra\<close>, and the default is to ignore them).
\<close>

definition str_field :: "pydict \<Rightarrow> string \<Rightarrow> string option" where
  "str_field d k = (case map_of d k of Some (PyStr s) \<Rightarrow> Some s | _ \<Rightarrow> None)"

fun as_str :: "pyval \<Rightarrow> string option" where
  "as_str (PyStr s) = Some s"
| "as_str v = None"

definition list_str_field :: "pydict \<Rightarrow> string \<Rightarrow> string list option" where
  "list_str_field d k =
     (case map_of d k of Some (PyList xs) \<Rightarrow> those (map as_str xs) | _ \<Rightarrow> None)"

definition optional_str_field :: "pydict \<Rightarrow> string \<Rightarrow> string option option" where
  "optional_str_field d k =
     (case map_of d k of
        None \<Rightarrow> Some None
      | Some PyNone \<Rightarrow> Some None
      | Some (PyStr s) \<Rightarrow> Some (Some s)
      | Some _ \<Rightarrow> None)"

definition bool_field :: "pydict \<Rightarrow> string \<Rightarrow> bool \<Rightarrow> bool option" where
  "bool_field d k dflt =
     (case map_of d k of None \<Rightarrow> Some dflt | Some (PyBool b) \<Rightarrow> Some b | Some _ \<Rightarrow> None)"

definition datetime_field :: "pydict \<Rightarrow> string \<Rightarrow> nat option" where
  "datetime_field d k = (case map_of d k of Some (PyDatetime t) \<Rightarrow> Some t | _ \<Rightarrow> None)"

fun optional_str :: "string option \<Rightarrow> pyval" where
  "optional_str None = PyNone"
| "optional_str (Some s) = PyStr s"

record StatusCheck =
  id :: string
  client_name :: string
  timestamp :: nat

record StatusCheckCreate =
  client_name :: string

record Project =
  id :: string
  title :: string
  description :: string
  tech_stack :: "string list"
  image_url :: string
  demo_url :: "string option"
  github_url :: "string option"
  category :: string
  created_date :: nat
  featured :: bool

record ProjectCreate =
  title :: string
  description :: string
  tech_stack :: "string list"
  image_url :: string
  demo_url :: "string option"
  github_url :: "string option"
  category :: string
  featured :: bool

text \<open>\<^verbatim>\<open>.dict()\<close>: every declared field is a key, in the order of declaration.\<close>

definition StatusCheckCreate_dict :: "StatusCheckCreate \<Rightarrow> pydict" where
  "StatusCheckCreate_dict c = [(''client_name'', PyStr (StatusCheckCreate.client_name c))]"

definition StatusCheck_dict :: "StatusCheck \<Rightarrow> pydict" where
  "StatusCheck_dict s =
     [(''id'', PyStr (StatusCheck.id s)),
      (''client_name'', PyStr (StatusCheck.client_name s)),
      (''timestamp'', PyDatetime (StatusCheck.timestamp s))]"

definition ProjectCreate_dict :: "ProjectCreate \<Rightarrow> pydict" where
  "ProjectCreate_dict c =
     [(''title'', PyStr (ProjectCreate.title c)),
      (''description'', PyStr (ProjectCreate.description c)),
      (''tech_stack'', PyList (map PyStr (ProjectCreate.tech_stack c))),
      (''image_url'', PyStr (ProjectCreate.image_url c)),
      (''demo_url'', optional_str (ProjectCreate.demo_url c)),
      (''github_url'', optional_str (ProjectCreate.github_url c)),
      (''category'', PyStr (ProjectCreate.category c)),
      (''featured'', PyBool (ProjectCreate.featured c))]"

definition Project_dict :: "Project \<Rightarrow> pydict" where
  "Project_dict p =
     [(''id'', PyStr (Project.id p)),
      (''title'', PyStr (Project.title p)),
      (''description'', PyStr (Project.description p)),
      (''tech_stack'', PyList (map PyStr (Project.tech_stack p))),
      (''image_url'', PyStr (Project.image_url p)),
      (''demo_url'', optional_str (Project.demo_url p)),
      (''github_url'', optional_str (Project.github_url p)),
      (''category'', PyStr (Project.category p)),
      (''created_date'', PyDatetime (Project.created_date p)),
      (''featured'', PyBool (Project.featured p))]"

text \<open>Validation of a dictionary against a model, once every default is filled in.\<close>

definition StatusCheckCreate_validate :: "pydict \<Rightarrow> StatusCheckCreate option" where
  "StatusCheckCreate_validate d =
     do { n \<leftarrow> str_field d ''client_name'';
          Some \<lparr>StatusCheckCreate.client_name = n\<rparr> }"

definition StatusCheck_validate :: "pydict \<Rightarrow> StatusCheck option" where
  "StatusCheck_validate d =
     do { i \<leftarrow> str_field d ''id'';
          n \<leftarrow> str_field d ''client_name'';
          t \<leftarrow> datetime_field d ''timestamp'';
          Some \<lparr>StatusCheck.id = i, StatusCheck.client_name = n, StatusCheck.timestamp = t\<rparr> }"

definition ProjectCreate_validate :: "pydict \<Rightarrow> ProjectCreate option" where
  "ProjectCreate_validate d =
     do { t \<leftarrow> str_field d ''title'';
          de \<leftarrow> str_field d ''description'';
          ts \<leftarrow> list_str_field d ''tech_stack'';
          im \<leftarrow> str_field d ''image_url'';
          dm \<leftarrow> optional_str_field d ''demo_url'';
          gh \<leftarrow> optional_str_field d ''github_url'';
          c \<leftarrow> str_field d ''category'';
          f \<leftarrow> bool_field d ''featured'' False;
          Some \<lparr>ProjectCreate.title = t, ProjectCreate.description = de,
                ProjectCreate.tech_stack = ts, ProjectCreate.image_url = im,
                ProjectCreate.demo_url = dm, ProjectCreate.github_url = gh,
                ProjectCreate.category = c, ProjectCreate.featured = f\<rparr> }"

definition Project_validate :: "pydict \<Rightarrow> Project option" where
  "Project_validate d =
     do { i \<leftarrow> str_field d ''id'';
          t \<leftarrow> str_field d ''title'';
          de \<leftarrow> str_field d ''description'';
          ts \<leftarrow> list_str_field d ''tech_stack'';
          im \<leftarrow> str_field d ''image_url'';
          dm \<leftarrow> optional_str_field d ''demo_url'';
          gh \<leftarrow> optional_str_field d ''github_url'';
          c \<leftarrow> str_field d ''category'';
          cd \<leftarrow> datetime_field d ''created_date'';
          f \<leftarrow> bool_field d ''featured'' False;
          Some \<lparr>Project.id = i, Project.title = t, Project.description = de,
                Project.tech_stack = ts, Project.image_url = im, Project.demo_url = dm,
                Project.github_url = gh, Project.category = c, Project.created_date = cd,
                Project.featured = f\<rparr> }"

text \<open>
  \<^verbatim>\<open>Field(default_factory=...)\<close>: when the key is missing, the factory is called and
  its value becomes the field's. \<open>default_id\<close> is the factory of both \<^verbatim>\<open>id\<close> fields,
  \<open>default_datetime\<close> that of \<^verbatim>\<open>timestamp\<close> and \<^verbatim>\<open>created_date\<close>.
\<close>

definition default_id :: "pydict \<Rightarrow> world \<Rightarrow> pydict \<times> world" where
  "default_id d w =
     (case map_of d ''id'' of
        Some v \<Rightarrow> (d, w)
      | None \<Rightarrow> (case uuid4 w of (u, w') \<Rightarrow> (d @ [(''id'', PyStr u)], w')))"

definition default_datetime :: "string \<Rightarrow> pydict \<Rightarrow> world \<Rightarrow> pydict \<times> world" where
  "default_datetime k d w =
     (case map_of d k of
        Some v \<Rightarrow> (d, w)
      | None \<Rightarrow> (case utcnow w of (t, w') \<Rightarrow> (d @ [(k, PyDatetime t)], w')))"

text \<open>\<^verbatim>\<open>StatusCheck(**d)\<close> and \<^verbatim>\<open>Project(**d)\<close>.\<close>

definition StatusCheck_init :: "pydict \<Rightarrow> world \<Rightarrow> (failure + StatusCheck) \<times> world" where
  "StatusCheck_init d w =
     (case default_id d w of (d1, w1) \<Rightarrow>
      case default_datetime ''timestamp'' d1 w1 of (d2, w2) \<Rightarrow>
        (case StatusCheck_validate d2 of
           None \<Rightarrow> (Inl ValidationError, w2)
         | Some s \<Rightarrow> (Inr s, w2)))"

definition Project_init :: "pydict \<Rightarrow> world \<Rightarrow> (failure + Project) \<times> world" where
  "Project_init d w =
     (case default_id d w of (d1, w1) \<Rightarrow>
      case default_datetime ''created_date'' d1 w1 of (d2, w2) \<Rightarrow>
        (case Project_validate d2 of
           None \<Rightarrow> (Inl ValidationError, w2)
         | Some p \<Rightarrow> (Inr p, w2)))"

section \<open>The handlers\<close>

text \<open>
  Each handler takes the state of the world and returns its answer with the new state.
  \<open>Inl\<close> is the failure, \<open>Inr\<close> the body of the 200 answer.
\<close>

definition root :: "pydict" where
  "root = [(''message'', PyStr ''Hello World'')]"

definition create_status_check ::
  "StatusCheckCreate \<Rightarrow> world \<Rightarrow> (failure + StatusCheck) \<times> world" where
  "create_status_check input w =
     (let status_dict = StatusCheckCreate_dict input in
      case StatusCheck_init status_dict w of
        (Inl e, w1) \<Rightarrow> (Inl e, w1)
      | (Inr status_obj, w1) \<Rightarrow>
          (Inr status_obj,
           w1\<lparr>status_checks := insert_one (StatusCheck_dict status_obj) (status_checks w1)\<rparr>))"

text \<open>
  The comprehensions \<^verbatim>\<open>[StatusCheck(**d) for d in ...]\<close> and
  \<^verbatim>\<open>[Project(**d) for d in ...]\<close>: the first document that does not validate ends
  the request.
\<close>

fun StatusCheck_init_all ::
  "pydict list \<Rightarrow> world \<Rightarrow> (failure + StatusCheck list) \<times> world" where
  "StatusCheck_init_all [] w = (Inr [], w)"
| "StatusCheck_init_all (d # ds) w =
     (case StatusCheck_init d w of
        (Inl e, w1) \<Rightarrow> (Inl e, w1)
      | (Inr s, w1) \<Rightarrow>
          (case StatusCheck_init_all ds w1 of
             (Inl e, w2) \<Rightarrow> (Inl e, w2)
           | (Inr ss, w2) \<Rightarrow> (Inr (s # ss), w2)))"

fun Project_init_all ::
  "pydict list \<Rightarrow> world \<Rightarrow> (failure + Project list) \<times> world" where
  "Project_init_all [] w = (Inr [], w)"
| "Project_init_all (d # ds) w =
     (case Project_init d w of
        (Inl e, w1) \<Rightarrow> (Inl e, w1)
      | (Inr p, w1) \<Rightarrow>
          (case Project_init_all ds w1 of
             (Inl e, w2) \<Rightarrow> (Inl e, w2)
           | (Inr ps, w2) \<Rightarrow> (Inr (p # ps), w2)))"

definition get_status_checks :: "world \<Rightarrow> (failure + StatusCheck list) \<times> world" where
  "get_status_checks w =
     (let status_checks = find_to_list 1000 (status_checks w) in
      StatusCheck_init_all status_checks w)"

definition get_projects :: "world \<Rightarrow> (failure + Project list) \<times> world" where
  "get_projects w =
     (let projects = find_to_list 1000 (projects w) in
      Project_init_all projects w)"

text \<open>\<^verbatim>\<open>not project\<close> holds of \<^verbatim>\<open>None\<close> and of the empty dictionary.\<close>

definition get_project :: "string \<Rightarrow> world \<Rightarrow> (failure + Project) \<times> world" where
  "get_project project_id w =
     (case find_one [(''id'', PyStr project_id)] (projects w) of
        None \<Rightarrow> (Inl (HTTPException 404 ''Project not found''), w)
      | Some project \<Rightarrow>
          if project = [] then (Inl (HTTPException 404 ''Project not found''), w)
          else Project_init project w)"

definition create_project :: "ProjectCreate \<Rightarrow> world \<Rightarrow> (failure + Project) \<times> world" where
  "create_project project w =
     (let project_dict = ProjectCreate_dict project in
      case Project_init project_dict w of
        (Inl e, w1) \<Rightarrow> (Inl e, w1)
      | (Inr project_obj, w1) \<Rightarrow>
          (Inr project_obj,
           w1\<lparr>projects := insert_one (Project_dict project_obj) (projects w1)\<rparr>))"

definition delete_project :: "string \<Rightarrow> world \<Rightarrow> (failure + pydict) \<times> world" where
  "delete_project project_id w =
     (case delete_one [(''id'', PyStr project_id)] (projects w) of
        (deleted_count, remaining) \<Rightarrow>
          if deleted_count = 0
          then (Inl (HTTPException 404 ''Project not found''), w\<lparr>projects := remaining\<rparr>)
          else (Inr [(''message'', PyStr ''Project deleted successfully'')],
                w\<lparr>projects := remaining\<rparr>))"

definition sample_projects :: "pydict list" where
  "sample_projects =
     [
      [(''title'', PyStr ''AI-Powered Chat Application''),
       (''description'', PyStr ''A modern chat application with AI integration, real-time messaging, and beautiful UI. Features include smart responses, conversation history, and responsive design.''),
       (''tech_stack'', PyList [PyStr ''React'', PyStr ''Node.js'', PyStr ''OpenAI'', PyStr ''Socket.io'', PyStr ''MongoDB'']),
       (''image_url'', PyStr ''https://images.unsplash.com/photo-1587620962725-abab7fe55159?ixlib=rb-4.0.3&ixid=M3wxMjA3fDB8MHxwaG90by1wYWdlfHx8fGVufDB8fHx8fA%3D%3D&auto=format&fit=crop&w=1000&q=80''),
       (''demo_url'', PyStr ''https://demo-chat.example.com''),
       (''github_url'', PyStr ''https://github.com/user/ai-chat''),
       (''category'', PyStr ''Web Application''),
       (''featured'', PyBool True)],
      [(''title'', PyStr ''3D Portfolio Website''),
       (''description'', PyStr ''An interactive 3D portfolio showcasing projects with geometric shapes and smooth animations. Built with Three.js and React for an immersive user experience.''),
       (''tech_stack'', PyList [PyStr ''React'', PyStr ''Three.js'', PyStr ''React Three Fiber'', PyStr ''FastAPI'', PyStr ''MongoDB'']),
       (''image_url'', PyStr ''https://images.unsplash.com/photo-1633356122544-f134324a6cee?ixlib=rb-4.0.3&ixid=M3wxMjA3fDB8MHxwaG90by1wYWdlfHx8fGVufDB8fHx8fA%3D%3D&auto=format&fit=crop&w=1000&q=80''),
       (''demo_url'', PyStr ''https://portfolio-3d.example.com''),
       (''github_url'', PyStr ''https://github.com/user/3d-portfolio''),
       (''category'', PyStr ''Portfolio''),
       (''featured'', PyBool True)],
      [(''title'', PyStr ''E-commerce Platform''),
       (''description'', PyStr ''Full-stack e-commerce solution with payment integration, inventory management, and admin dashboard. Features modern design and seamless user experience.''),
       (''tech_stack'', PyList [PyStr ''React'', PyStr ''Express.js'', PyStr ''Stripe'', PyStr ''PostgreSQL'', PyStr ''Redis'']),
       (''image_url'', PyStr ''https://images.unsplash.com/photo-1556742049-0cfed4f6a45d?ixlib=rb-4.0.3&ixid=M3wxMjA3fDB8MHxwaG90by1wYWdlfHx8fGVufDB8fHx8fA%3D%3D&auto=format&fit=crop&w=1000&q=80''),
       (''demo_url'', PyStr ''https://shop.example.com''),
       (''github_url'', PyStr ''https://github.com/user/ecommerce''),
       (''category'', PyStr ''E-commerce''),
       (''featured'', PyBool False)],
      [(''title'', PyStr ''Data Visualization Dashboard''),
       (''description'', PyStr ''Interactive dashboard for data analytics with charts, graphs, and real-time updates. Perfect for business intelligence and data-driven decisions.''),
       (''tech_stack'', PyList [PyStr ''React'', PyStr ''D3.js'', PyStr ''Python'', PyStr ''FastAPI'', PyStr ''PostgreSQL'']),
       (''image_url'', PyStr ''https://images.unsplash.com/photo-1551288049-bebda4e38f71?ixlib=rb-4.0.3&ixid=M3wxMjA3fDB8MHxwaG90by1wYWdlfHx8fGVufDB8fHx8fA%3D%3D&auto=format&fit=crop&w=1000&q=80''),
       (''demo_url'', PyStr ''https://dashboard.example.com''),
       (''github_url'', PyStr ''https://github.com/user/dashboard''),
       (''category'', PyStr ''Data Analytics''),
       (''featured'', PyBool True)],
      [(''title'', PyStr ''Mobile Game Development''),
       (''description'', PyStr ''Engaging mobile game with 3D graphics, physics simulation, and multiplayer capabilities. Optimized for performance across all devices.''),
       (''tech_stack'', PyList [PyStr ''Unity'', PyStr ''C#'', PyStr ''Firebase'', PyStr ''Photon'', PyStr ''Blender'']),
       (''image_url'', PyStr ''https://images.unsplash.com/photo-1493711662062-fa541adb3fc8?ixlib=rb-4.0.3&ixid=M3wxMjA3fDB8MHxwaG90by1wYWdlfHx8fGVufDB8fHx8fA%3D%3D&auto=format&fit=crop&w=1000&q=80''),
       (''demo_url'', PyStr ''https://play.google.com/store/apps/details?id=com.example.game''),
       (''github_url'', PyStr ''https://github.com/user/mobile-game''),
       (''category'', PyStr ''Game Development''),
       (''featured'', PyBool False)],
      [(''title'', PyStr ''Blockchain DeFi Platform''),
       (''description'', PyStr ''Decentralized finance platform with smart contracts, yield farming, and token swapping. Built on Ethereum with modern web3 integration.''),
       (''tech_stack'', PyList [PyStr ''Solidity'', PyStr ''React'', PyStr ''Web3.js'', PyStr ''Hardhat'', PyStr ''IPFS'']),
       (''image_url'', PyStr ''https://images.unsplash.com/photo-1639762681485-074b7f938ba0?ixlib=rb-4.0.3&ixid=M3wxMjA3fDB8MHxwaG90by1wYWdlfHx8fGVufDB8fHx8fA%3D%3D&auto=format&fit=crop&w=1000&q=80''),
       (''demo_url'', PyStr ''https://defi.example.com''),
       (''github_url'', PyStr ''https://github.com/user/defi-platform''),
       (''category'', PyStr ''Blockchain''),
       (''featured'', PyBool True)]
     ]"

text \<open>\<^verbatim>\<open>str(n)\<close> of a natural number, for the f-string of the answer.\<close>

fun str_nat :: "nat \<Rightarrow> string" where
  "str_nat n =
     (if n < 10 then [''0123456789'' ! n]
      else str_nat (n div 10) @ [''0123456789'' ! (n mod 10)])"

text \<open>The loop over \<^verbatim>\<open>sample_projects\<close>, with \<^verbatim>\<open>created_projects\<close> as it grows.\<close>

fun insert_samples ::
  "pydict list \<Rightarrow> Project list \<Rightarrow> world \<Rightarrow> (failure + Project list) \<times> world" where
  "insert_samples [] created_projects w = (Inr created_projects, w)"
| "insert_samples (project_data # rest) created_projects w =
     (case Project_init project_data w of
        (Inl e, w1) \<Rightarrow> (Inl e, w1)
      | (Inr project_obj, w1) \<Rightarrow>
          insert_samples rest (created_projects @ [project_obj])
            (w1\<lparr>projects := insert_one (Project_dict project_obj) (projects w1)\<rparr>))"

text \<open>The answer is the pair of \<^verbatim>\<open>"message"\<close> and \<^verbatim>\<open>"projects"\<close>.\<close>

definition create_sample_projects ::
  "world \<Rightarrow> (failure + string \<times> Project list) \<times> world" where
  "create_sample_projects w =
     (let w0 = w\<lparr>projects := snd (delete_many [] (projects w))\<rparr> in
      case insert_samples sample_projects [] w0 of
        (Inl e, w1) \<Rightarrow> (Inl e, w1)
      | (Inr created_projects, w1) \<Rightarrow>
          (Inr (''Created '' @ str_nat (length created_projects) @ '' sample projects'',
                created_projects), w1))"

section \<open>The routes\<close>

text \<open>
  A POST route validates the JSON body against the model its handler declares and
  calls the handler only with a valid one. A body that is not a JSON object does not
  validate.
\<close>

definition post_status :: "pyval \<Rightarrow> world \<Rightarrow> (failure + StatusCheck) \<times> world" where
  "post_status body w =
     (case body of
        PyDict d \<Rightarrow>
          (case StatusCheckCreate_validate d of
             None \<Rightarrow> (Inl RequestValidationError, w)
           | Some input \<Rightarrow> create_status_check input w)
      | _ \<Rightarrow> (Inl RequestValidationError, w))"

definition post_projects :: "pyval \<Rightarrow> world \<Rightarrow> (failure + Project) \<times> world" where
  "post_projects body w =
     (case body of
        PyDict d \<Rightarrow>
          (case ProjectCreate_validate d of
             None \<Rightarrow> (Inl RequestValidationError, w)
           | Some project \<Rightarrow> create_project project w)
      | _ \<Rightarrow> (Inl RequestValidationError, w))"

section \<open>Notions used by the properties\<close>

text \<open>The identifiers that \<^verbatim>\<open>uuid4\<close> has handed out so far, oldest first.\<close>

definition issued_ids :: "world \<Rightarrow> string list" where
  "issued_ids w = map (uuid4_source w) [0..<uuid4_calls w]"

text \<open>The field names that \<^verbatim>\<open>ProjectCreate\<close> declares.\<close>

definition ProjectCreate_fields :: "string list" where
  "ProjectCreate_fields =
     [''title'', ''description'', ''tech_stack'', ''image_url'', ''demo_url'', ''github_url'',
      ''category'', ''featured'']"

text \<open>
  The record that \<^verbatim>\<open>Project(**project.dict())\<close> builds from a create shape: the next
  identifier, the next reading of the clock, and the fields of the create shape.
\<close>

definition enrich :: "ProjectCreate \<Rightarrow> world \<Rightarrow> Project" where
  "enrich c w =
     \<lparr>Project.id = uuid4_source w (uuid4_calls w),
      Project.title = ProjectCreate.title c,
      Project.description = ProjectCreate.description c,
      Project.tech_stack = ProjectCreate.tech_stack c,
      Project.image_url = ProjectCreate.image_url c,
      Project.demo_url = ProjectCreate.demo_url c,
      Project.github_url = ProjectCreate.github_url c,
      Project.category = ProjectCreate.category c,
      Project.created_date = utcnow_source w (utcnow_calls w),
      Project.featured = ProjectCreate.featured c\<rparr>"

text \<open>
  A document of the shape the server writes: it validates against the model and is the
  dictionary of the record it validates to.
\<close>

definition is_Project_doc :: "pydict \<Rightarrow> bool" where
  "is_Project_doc d =
     (case Project_validate d of None \<Rightarrow> False | Some p \<Rightarrow> Project_dict p = d)"

definition is_StatusCheck_doc :: "pydict \<Rightarrow> bool" where
  "is_StatusCheck_doc d =
     (case StatusCheck_validate d of None \<Rightarrow> False | Some s \<Rightarrow> StatusCheck_dict s = d)"

subsection \<open>Concrete inputs\<close>

text \<open>
  A world with an empty store, a source of identifiers that never repeats and a clock
  that starts at a time with microseconds in it; and some request bodies.
\<close>

definition example_uuids :: "nat \<Rightarrow> string" where
  "example_uuids n = ''uuid-'' @ replicate n CHR ''0''"

definition example_world :: world where
  "example_world =
     \<lparr>projects = [], status_checks = [], uuid4_source = example_uuids, uuid4_calls = 0,
      utcnow_source = (\<lambda>n. 1700000000123456 + n), utcnow_calls = 0\<rparr>"

definition minimal_body :: pydict where
  "minimal_body =
     [(''title'', PyStr ''Test Project''),
      (''description'', PyStr ''This is a test project''),
      (''tech_stack'', PyList [PyStr ''Python'', PyStr ''FastAPI'']),
      (''image_url'', PyStr ''https://example.com/a.png''),
      (''category'', PyStr ''Testing'')]"

definition minimal_create :: ProjectCreate where
  "minimal_create =
     \<lparr>ProjectCreate.title = ''Test Project'',
      ProjectCreate.description = ''This is a test project'',
      ProjectCreate.tech_stack = [''Python'', ''FastAPI''],
      ProjectCreate.image_url = ''https://example.com/a.png'',
      ProjectCreate.demo_url = None, ProjectCreate.github_url = None,
      ProjectCreate.category = ''Testing'', ProjectCreate.featured = False\<rparr>"

definition client_id_fields :: pydict where
  "client_id_fields =
     [(''id'', PyStr ''chosen-by-client''), (''created_date'', PyStr ''1999-01-01T00:00:00'')]"

definition no_title_body :: pydict where
  "no_title_body =
     [(''description'', PyStr ''This is a test project''),
      (''tech_stack'', PyList [PyStr ''Python'', PyStr ''FastAPI'']),
      (''image_url'', PyStr ''https://example.com/a.png''),
      (''category'', PyStr ''Testing'')]"

definition wrong_type_body :: pydict where
  "wrong_type_body =
     [(''title'', PyInt 123),
      (''description'', PyStr ''This is a test project''),
      (''tech_stack'', PyStr ''Python''),
      (''image_url'', PyStr ''https://example.com/a.png''),
      (''category'', PyStr ''Testing''),
      (''client_name'', PyList [])]"


text \<open>The answer to the creation of \<open>minimal_body\<close> in \<open>example_world\<close>.\<close>

definition minimal_project :: Project where
  "minimal_project =
     \<lparr>Project.id = ''uuid-'', title = ''Test Project'',
      description = ''This is a test project'', tech_stack = [''Python'', ''FastAPI''],
      image_url = ''https://example.com/a.png'', demo_url = None, github_url = None,
      category = ''Testing'', created_date = 1700000000123456, featured = False\<rparr>"

text \<open>
  The project of \<open>minimal_body\<close> as the store holds it, the world after its creation,
  and a world whose collection is one document over the cap of the list operations.
\<close>

definition stored_project :: Project where
  "stored_project = minimal_project\<lparr>Project.created_date := 1700000000123000\<rparr>"

definition seeded_world :: world where
  "seeded_world = snd (post_projects (PyDict minimal_body) example_world)"


subsection \<open>Runs of the server\<close>

text \<open>
  The requests the router accepts, one for each route, and the state a request leaves
  behind. A run of the server is \<open>fold serve\<close> over the requests it answers.
\<close>

datatype request =
    GetRoot
  | PostStatus pyval
  | GetStatus
  | GetProjects
  | GetProject string
  | PostProjects pyval
  | DeleteProject string
  | PostProjectsSample

fun serve :: "request \<Rightarrow> world \<Rightarrow> world" where
  "serve GetRoot w = w"
| "serve (PostStatus body) w = snd (post_status body w)"
| "serve GetStatus w = snd (get_status_checks w)"
| "serve GetProjects w = snd (get_projects w)"
| "serve (GetProject project_id) w = snd (get_project project_id w)"
| "serve (PostProjects body) w = snd (post_projects body w)"
| "serve (DeleteProject project_id) w = snd (delete_project project_id w)"
| "serve PostProjectsSample w = snd (create_sample_projects w)"

text \<open>
  What the handlers keep true of the store: every document is one of its model, and every
  id of a project is one that \<^verbatim>\<open>uuid4\<close> has issued. \<open>ids_distinct\<close>: no two
  projects share an id.
\<close>

definition store_ok :: "world \<Rightarrow> bool" where
  "store_ok w \<longleftrightarrow>
     list_all is_Project_doc (projects w)
     \<and> list_all is_StatusCheck_doc (status_checks w)
     \<and> list_all (\<lambda>d. case str_field d ''id'' of
                       None \<Rightarrow> True
                     | Some i \<Rightarrow> i \<in> set (issued_ids w)) (projects w)"

definition ids_distinct :: "world \<Rightarrow> bool" where
  "ids_distinct w \<longleftrightarrow> distinct (map (\<lambda>d. map_of d ''id'') (projects w))"

section \<open>Facts about the models\<close>

lemmas field_defs =
  str_field_def list_str_field_def optional_str_field_def bool_field_def datetime_field_def

lemma those_as_str [simp]: "those (map (as_str \<circ> PyStr) xs) = Some xs"
  by (induction xs) auto

lemma those_None_iff: "those xs = None \<longleftrightarrow> None \<in> set xs"
  by (induction xs) (auto split: option.splits)

lemma bson_PyStr [simp]: "map (bson \<circ> PyStr) xs = map PyStr xs"
  by (induction xs) auto

lemma bson_optional_str [simp]: "bson (optional_str x) = optional_str x"
  by (cases x) auto

text \<open>Reading back what \<^verbatim>\<open>.dict()\<close> wrote gives the record again.\<close>

lemma Project_validate_dict [simp]: "Project_validate (Project_dict p) = Some p"
  by (cases "Project.demo_url p"; cases "Project.github_url p")
     (simp_all add: Project_validate_def Project_dict_def field_defs)

lemma StatusCheck_validate_dict [simp]: "StatusCheck_validate (StatusCheck_dict s) = Some s"
  by (simp add: StatusCheck_validate_def StatusCheck_dict_def field_defs)

lemma Project_init_dict [simp]: "Project_init (Project_dict p) w = (Inr p, w)"
proof -
  have "default_id (Project_dict p) w = (Project_dict p, w)"
    by (simp add: default_id_def Project_dict_def)
  moreover have "default_datetime ''created_date'' (Project_dict p) w = (Project_dict p, w)"
    by (simp add: default_datetime_def Project_dict_def)
  ultimately show ?thesis
    by (simp add: Project_init_def)
qed

lemma StatusCheck_init_dict [simp]: "StatusCheck_init (StatusCheck_dict s) w = (Inr s, w)"
proof -
  have "default_id (StatusCheck_dict s) w = (StatusCheck_dict s, w)"
    by (simp add: default_id_def StatusCheck_dict_def)
  moreover have "default_datetime ''timestamp'' (StatusCheck_dict s) w = (StatusCheck_dict s, w)"
    by (simp add: default_datetime_def StatusCheck_dict_def)
  ultimately show ?thesis
    by (simp add: StatusCheck_init_def)
qed

text \<open>The store keeps a project with its date cut to the millisecond, and nothing else changed.\<close>

lemma bson_doc_Project_dict:
  "bson_doc (Project_dict p) =
   Project_dict (p\<lparr>Project.created_date := Project.created_date p div 1000 * 1000\<rparr>)"
  by (simp add: bson_doc_def Project_dict_def)

lemma bson_doc_StatusCheck_dict:
  "bson_doc (StatusCheck_dict s) =
   StatusCheck_dict (s\<lparr>StatusCheck.timestamp := StatusCheck.timestamp s div 1000 * 1000\<rparr>)"
  by (simp add: bson_doc_def StatusCheck_dict_def)

lemma is_Project_doc_dict [simp]: "is_Project_doc (Project_dict p)"
  by (simp add: is_Project_doc_def)

lemma is_Project_docE:
  assumes "is_Project_doc d"
  obtains p where "d = Project_dict p"
  using assms by (auto simp: is_Project_doc_def split: option.splits)

lemma is_StatusCheck_doc_dict [simp]: "is_StatusCheck_doc (StatusCheck_dict s)"
  by (simp add: is_StatusCheck_doc_def)

lemma is_StatusCheck_docE:
  assumes "is_StatusCheck_doc d"
  obtains s where "d = StatusCheck_dict s"
  using assms by (auto simp: is_StatusCheck_doc_def split: option.splits)

section \<open>Facts about creation\<close>

lemma Project_init_ProjectCreate_dict:
  "Project_init (ProjectCreate_dict c) w =
     (Inr (enrich c w),
      w\<lparr>uuid4_calls := Suc (uuid4_calls w), utcnow_calls := Suc (utcnow_calls w)\<rparr>)"
  by (cases "ProjectCreate.demo_url c"; cases "ProjectCreate.github_url c")
     (simp_all add: Project_init_def default_id_def default_datetime_def ProjectCreate_dict_def
        uuid4_def utcnow_def Project_validate_def field_defs enrich_def)

lemma create_project_eq:
  "create_project c w =
     (Inr (enrich c w),
      w\<lparr>uuid4_calls := Suc (uuid4_calls w), utcnow_calls := Suc (utcnow_calls w),
        projects := projects w @ [bson_doc (Project_dict (enrich c w))]\<rparr>)"
  by (simp add: create_project_def Project_init_ProjectCreate_dict insert_one_def)

lemma post_projects_valid:
  "ProjectCreate_validate d = Some c \<Longrightarrow> post_projects (PyDict d) w = create_project c w"
  by (simp add: post_projects_def)

lemma ProjectCreate_validate_SomeD:
  assumes "ProjectCreate_validate d = Some c"
  shows "str_field d ''title'' = Some (ProjectCreate.title c)"
    and "str_field d ''description'' = Some (ProjectCreate.description c)"
    and "list_str_field d ''tech_stack'' = Some (ProjectCreate.tech_stack c)"
    and "str_field d ''image_url'' = Some (ProjectCreate.image_url c)"
    and "optional_str_field d ''demo_url'' = Some (ProjectCreate.demo_url c)"
    and "optional_str_field d ''github_url'' = Some (ProjectCreate.github_url c)"
    and "str_field d ''category'' = Some (ProjectCreate.category c)"
    and "bool_field d ''featured'' False = Some (ProjectCreate.featured c)"
  using assms by (auto simp: ProjectCreate_validate_def split: Option.bind_splits)

lemma ProjectCreate_validate_None:
  "str_field d ''title'' = None \<or> str_field d ''description'' = None
   \<or> list_str_field d ''tech_stack'' = None \<or> str_field d ''image_url'' = None
   \<or> str_field d ''category'' = None \<Longrightarrow> ProjectCreate_validate d = None"
  by (auto simp: ProjectCreate_validate_def split: Option.bind_split)

lemma ProjectCreate_validate_cong:
  "\<forall>k\<in>set ProjectCreate_fields. map_of d' k = map_of d k \<Longrightarrow>
   ProjectCreate_validate d' = ProjectCreate_validate d"
  by (simp add: ProjectCreate_validate_def ProjectCreate_fields_def field_defs)

lemma minimal_body_valid: "ProjectCreate_validate minimal_body = Some minimal_create"
  by (simp add: ProjectCreate_validate_def minimal_body_def minimal_create_def field_defs)

lemma str_field_None:
  "(case map_of d k of None \<Rightarrow> True | Some v \<Rightarrow> as_str v = None) \<Longrightarrow> str_field d k = None"
  by (auto simp: str_field_def split: option.splits pyval.splits)

lemma list_str_field_None:
  assumes h: "case map_of d k of Some (PyList xs) \<Rightarrow> \<exists>x\<in>set xs. as_str x = None | _ \<Rightarrow> True"
  shows "list_str_field d k = None"
proof (cases "map_of d k")
  case None
  then show ?thesis by (simp add: list_str_field_def)
next
  case (Some v)
  show ?thesis
  proof (cases v)
    case (PyList xs)
    with h Some obtain x where "x \<in> set xs" "as_str x = None" by auto
    then have "None \<in> set (map as_str xs)" by force
    with Some PyList show ?thesis
      by (simp add: list_str_field_def those_None_iff del: set_map)
  qed (use Some in \<open>simp_all add: list_str_field_def\<close>)
qed

lemma map_of_append_extra:
  assumes "k \<notin> fst ` set extra"
  shows "map_of (d @ extra) k = map_of d k"
proof -
  from assms have "map_of extra k = None"
    by (simp add: map_of_eq_None_iff)
  then show ?thesis
    by (simp add: map_add_def split: option.split)
qed


lemma uuid4_fresh:
  "inj (uuid4_source w) \<Longrightarrow> uuid4_source w (uuid4_calls w) \<notin> set (issued_ids w)"
  by (auto simp: issued_ids_def dest: injD)

lemma post_minimal_body:
  "post_projects (PyDict minimal_body) example_world =
     (Inr minimal_project,
      example_world\<lparr>uuid4_calls := 1, utcnow_calls := 1,
        projects := [Project_dict (minimal_project\<lparr>Project.created_date := 1700000000123000\<rparr>)]\<rparr>)"
  by (simp add: post_projects_valid [OF minimal_body_valid] create_project_eq enrich_def
      minimal_create_def minimal_project_def example_world_def example_uuids_def
      bson_doc_Project_dict)

section \<open>Facts about the store and the handlers\<close>

lemma matches_id [simp]:
  "matches [(''id'', v)] d \<longleftrightarrow> map_of d ''id'' = Some v"
  by (simp add: matches_def)

lemma find_one_None_iff: "find_one flt ds = None \<longleftrightarrow> (\<forall>d\<in>set ds. \<not> matches flt d)"
  by (induction ds) auto

lemma find_one_SomeD: "find_one flt ds = Some d \<Longrightarrow> d \<in> set ds \<and> matches flt d"
  by (induction ds) (auto split: if_splits)

lemma find_one_append:
  "find_one flt (xs @ ys) =
     (case find_one flt xs of None \<Rightarrow> find_one flt ys | Some d \<Rightarrow> Some d)"
  by (induction xs) auto

lemma Project_dict_id [simp]: "map_of (Project_dict p) ''id'' = Some (PyStr (Project.id p))"
  by (simp add: Project_dict_def)

lemma Project_dict_not_Nil [simp]: "Project_dict p \<noteq> []"
  by (simp add: Project_dict_def)

lemma get_project_absent:
  "\<forall>d\<in>set (projects w). map_of d ''id'' \<noteq> Some (PyStr project_id) \<Longrightarrow>
   get_project project_id w = (Inl (HTTPException 404 ''Project not found''), w)"
proof -
  assume "\<forall>d\<in>set (projects w). map_of d ''id'' \<noteq> Some (PyStr project_id)"
  then have "find_one [(''id'', PyStr project_id)] (projects w) = None"
    by (simp add: find_one_None_iff)
  then show ?thesis
    by (simp add: get_project_def)
qed

lemma get_project_present:
  assumes docs: "list_all is_Project_doc (projects w)"
    and some: "\<exists>d\<in>set (projects w). map_of d ''id'' = Some (PyStr project_id)"
  shows "\<exists>p. get_project project_id w = (Inr p, w) \<and> Project.id p = project_id
    \<and> Project_dict p \<in> set (projects w)
    \<and> find_one [(''id'', PyStr project_id)] (projects w) = Some (Project_dict p)"
proof -
  from some obtain d where f: "find_one [(''id'', PyStr project_id)] (projects w) = Some d"
    by (cases "find_one [(''id'', PyStr project_id)] (projects w)")
       (auto simp: find_one_None_iff)
  then have d: "d \<in> set (projects w)" "map_of d ''id'' = Some (PyStr project_id)"
    by (auto dest: find_one_SomeD)
  with docs have "is_Project_doc d"
    by (simp add: list_all_iff)
  then obtain p where p: "d = Project_dict p"
    by (rule is_Project_docE)
  with d f show ?thesis
    by (auto simp: get_project_def)
qed

lemma Project_dict_inj: "Project_dict p = Project_dict q \<Longrightarrow> p = q"
  by (metis Project_validate_dict option.inject)

lemma seeded_world_eq:
  "seeded_world =
     example_world\<lparr>uuid4_calls := 1, utcnow_calls := 1, projects := [Project_dict stored_project]\<rparr>"
  by (simp add: seeded_world_def post_minimal_body stored_project_def)

lemma stored_project_id [simp]: "Project.id stored_project = ''uuid-''"
  by (simp add: stored_project_def minimal_project_def)

lemma delete_one_count:
  "fst (delete_one flt ds) = (if filter (matches flt) ds = [] then 0 else 1)"
  by (induction ds) (auto split: prod.splits)

lemma delete_one_none:
  "filter (matches flt) ds = [] \<Longrightarrow> snd (delete_one flt ds) = ds"
  by (induction ds) (auto split: prod.splits if_splits)

lemma delete_one_single:
  "length (filter (matches flt) ds) = 1 \<Longrightarrow>
   snd (delete_one flt ds) = filter (\<lambda>d. \<not> matches flt d) ds"
proof (induction ds)
  case Nil
  then show ?case by simp
next
  case (Cons d ds)
  show ?case
  proof (cases "matches flt d")
    case True
    with Cons.prems have "filter (matches flt) ds = []"
      by simp
    then have "filter (\<lambda>d. \<not> matches flt d) ds = ds"
      by (simp add: filter_empty_conv filter_id_conv)
    with True show ?thesis
      by simp
  next
    case False
    with Cons show ?thesis
      by (cases "delete_one flt ds") simp
  qed
qed

lemma filter_id_matches:
  "filter (matches [(''id'', v)]) ds = filter (\<lambda>d. map_of d ''id'' = Some v) ds"
  by (rule filter_cong) simp_all

lemma delete_project_eq:
  "delete_project project_id w =
     (if filter (\<lambda>d. map_of d ''id'' = Some (PyStr project_id)) (projects w) = []
      then Inl (HTTPException 404 ''Project not found'')
      else Inr [(''message'', PyStr ''Project deleted successfully'')],
      w\<lparr>projects := snd (delete_one [(''id'', PyStr project_id)] (projects w))\<rparr>)"
proof (cases "delete_one [(''id'', PyStr project_id)] (projects w)")
  case (Pair n remaining)
  with delete_one_count [of "[(''id'', PyStr project_id)]" "projects w"]
  have "n = (if filter (\<lambda>d. map_of d ''id'' = Some (PyStr project_id)) (projects w) = []
      then 0 else 1)"
    by (simp add: filter_id_matches)
  with Pair show ?thesis
    by (simp add: delete_project_def)
qed

lemma Project_init_all_docs:
  "list_all is_Project_doc ds \<Longrightarrow>
   \<exists>ps. Project_init_all ds w = (Inr ps, w) \<and> map Project_dict ps = ds"
proof (induction ds)
  case Nil
  then show ?case by simp
next
  case (Cons d ds)
  then obtain ps where ps: "Project_init_all ds w = (Inr ps, w)" "map Project_dict ps = ds"
    by auto
  from Cons.prems obtain p where p: "d = Project_dict p"
    by (auto elim: is_Project_docE)
  have "Project_init_all (d # ds) w = (Inr (p # ps), w)"
    by (simp add: p ps)
  with p ps show ?case
    by simp
qed

lemma StatusCheck_init_all_docs:
  "list_all is_StatusCheck_doc ds \<Longrightarrow>
   \<exists>ss. StatusCheck_init_all ds w = (Inr ss, w) \<and> map StatusCheck_dict ss = ds"
proof (induction ds)
  case Nil
  then show ?case by simp
next
  case (Cons d ds)
  then obtain ss where ss: "StatusCheck_init_all ds w = (Inr ss, w)" "map StatusCheck_dict ss = ds"
    by auto
  from Cons.prems obtain s where s: "d = StatusCheck_dict s"
    by (auto elim: is_StatusCheck_docE)
  have "StatusCheck_init_all (d # ds) w = (Inr (s # ss), w)"
    by (simp add: s ss)
  with s ss show ?case
    by simp
qed

lemma list_all_take: "list_all P xs \<Longrightarrow> list_all P (take n xs)"
  by (auto simp: list_all_iff dest: in_set_takeD)

lemma map_of_append_None: "map_of e k = None \<Longrightarrow> map_of (d @ e) k = map_of d k"
  by (simp add: map_add_def split: option.split)

lemma Project_validate_enriched:
  assumes valid: "ProjectCreate_validate d = Some c"
    and no_id: "map_of d ''id'' = None"
    and no_date: "map_of d ''created_date'' = None"
  shows "Project_validate (d @ [(''id'', PyStr u), (''created_date'', PyDatetime t)]) =
     Some \<lparr>Project.id = u,
          Project.title = ProjectCreate.title c,
          Project.description = ProjectCreate.description c,
          Project.tech_stack = ProjectCreate.tech_stack c,
          Project.image_url = ProjectCreate.image_url c,
          Project.demo_url = ProjectCreate.demo_url c,
          Project.github_url = ProjectCreate.github_url c,
          Project.category = ProjectCreate.category c,
          Project.created_date = t,
          Project.featured = ProjectCreate.featured c\<rparr>"
proof -
  let ?e = "[(''id'', PyStr u), (''created_date'', PyDatetime t)]"
  have same: "map_of (d @ ?e) k = map_of d k" if "k \<in> set ProjectCreate_fields" for k
    using that by (intro map_of_append_None) (auto simp: ProjectCreate_fields_def)
  have "str_field (d @ ?e) ''title'' = str_field d ''title''"
    "str_field (d @ ?e) ''description'' = str_field d ''description''"
    "list_str_field (d @ ?e) ''tech_stack'' = list_str_field d ''tech_stack''"
    "str_field (d @ ?e) ''image_url'' = str_field d ''image_url''"
    "optional_str_field (d @ ?e) ''demo_url'' = optional_str_field d ''demo_url''"
    "optional_str_field (d @ ?e) ''github_url'' = optional_str_field d ''github_url''"
    "str_field (d @ ?e) ''category'' = str_field d ''category''"
    "bool_field (d @ ?e) ''featured'' False = bool_field d ''featured'' False"
    unfolding field_defs by (simp_all only: same ProjectCreate_fields_def list.set insert_iff simp_thms)
  moreover have "str_field (d @ ?e) ''id'' = Some u"
    using no_id by (simp add: str_field_def map_add_def)
  moreover have "datetime_field (d @ ?e) ''created_date'' = Some t"
    using no_date by (simp add: datetime_field_def map_add_def)
  ultimately show ?thesis
    using ProjectCreate_validate_SomeD [OF valid]
    by (simp add: Project_validate_def)
qed

lemma Project_init_create_shape:
  assumes valid: "ProjectCreate_validate d = Some c"
    and no_id: "map_of d ''id'' = None"
    and no_date: "map_of d ''created_date'' = None"
  shows "Project_init d w =
     (Inr (enrich c w),
      w\<lparr>uuid4_calls := Suc (uuid4_calls w), utcnow_calls := Suc (utcnow_calls w)\<rparr>)"
proof -
  have 1: "default_id d w =
      (d @ [(''id'', PyStr (uuid4_source w (uuid4_calls w)))],
       w\<lparr>uuid4_calls := Suc (uuid4_calls w)\<rparr>)"
    using no_id by (simp add: default_id_def uuid4_def)
  have 2: "default_datetime ''created_date''
        (d @ [(''id'', PyStr (uuid4_source w (uuid4_calls w)))])
        (w\<lparr>uuid4_calls := Suc (uuid4_calls w)\<rparr>) =
      (d @ [(''id'', PyStr (uuid4_source w (uuid4_calls w))),
            (''created_date'', PyDatetime (utcnow_source w (utcnow_calls w)))],
       w\<lparr>uuid4_calls := Suc (uuid4_calls w), utcnow_calls := Suc (utcnow_calls w)\<rparr>)"
    using no_date by (simp add: default_datetime_def utcnow_def map_add_def)
  show ?thesis
    by (simp add: Project_init_def 1 2 Project_validate_enriched [OF valid no_id no_date]
        enrich_def)
qed

lemma insert_samples_shape:
  assumes "\<forall>d\<in>set ds. ProjectCreate_validate d \<noteq> None
      \<and> map_of d ''id'' = None \<and> map_of d ''created_date'' = None"
  shows "\<exists>ps w'. insert_samples ds created w = (Inr (created @ ps), w')
    \<and> length ps = length ds
    \<and> projects w' = projects w @ map (\<lambda>p. bson_doc (Project_dict p)) ps
    \<and> map (\<lambda>p. Some (Project.category p)) ps = map (\<lambda>d. str_field d ''category'') ds
    \<and> map Project.id ps = map (uuid4_source w) [uuid4_calls w..<uuid4_calls w + length ds]
    \<and> status_checks w' = status_checks w
    \<and> uuid4_source w' = uuid4_source w
    \<and> uuid4_calls w' = uuid4_calls w + length ds"
  using assms
proof (induction ds arbitrary: created w)
  case Nil
  then show ?case by simp
next
  case (Cons d ds)
  then obtain c where c: "ProjectCreate_validate d = Some c"
    and no: "map_of d ''id'' = None" "map_of d ''created_date'' = None"
    by auto
  let ?p = "enrich c w"
  let ?w = "w\<lparr>uuid4_calls := Suc (uuid4_calls w), utcnow_calls := Suc (utcnow_calls w),
      projects := projects w @ [bson_doc (Project_dict ?p)]\<rparr>"
  have step: "insert_samples (d # ds) created w = insert_samples ds (created @ [?p]) ?w"
    by (simp add: Project_init_create_shape [OF c no] insert_one_def)
  from Cons.prems have "\<forall>d\<in>set ds. ProjectCreate_validate d \<noteq> None
      \<and> map_of d ''id'' = None \<and> map_of d ''created_date'' = None"
    by simp
  from Cons.IH [OF this, of "created @ [?p]" ?w] obtain ps w' where
    r: "insert_samples ds (created @ [?p]) ?w = (Inr ((created @ [?p]) @ ps), w')"
    "length ps = length ds"
    "projects w' = projects ?w @ map (\<lambda>p. bson_doc (Project_dict p)) ps"
    "map (\<lambda>p. Some (Project.category p)) ps = map (\<lambda>d. str_field d ''category'') ds"
    "map Project.id ps = map (uuid4_source ?w) [uuid4_calls ?w..<uuid4_calls ?w + length ds]"
    "status_checks w' = status_checks ?w"
    "uuid4_source w' = uuid4_source ?w"
    "uuid4_calls w' = uuid4_calls ?w + length ds"
    by blast
  have cat: "str_field d ''category'' = Some (Project.category ?p)"
    using ProjectCreate_validate_SomeD(7) [OF c] by (simp add: enrich_def)
  have ids: "[uuid4_calls w..<uuid4_calls w + length (d # ds)] =
      uuid4_calls w # [Suc (uuid4_calls w)..<Suc (uuid4_calls w) + length ds]"
  proof -
    have "uuid4_calls w < uuid4_calls w + length (d # ds)"
      by simp
    then have "[uuid4_calls w..<uuid4_calls w + length (d # ds)] =
        uuid4_calls w # [Suc (uuid4_calls w)..<uuid4_calls w + length (d # ds)]"
      by (rule upt_conv_Cons)
    moreover have "uuid4_calls w + length (d # ds) = Suc (uuid4_calls w) + length ds"
      by simp
    ultimately show ?thesis
      by (simp only:)
  qed
  show ?case
  proof (intro exI conjI)
    show "insert_samples (d # ds) created w = (Inr (created @ ?p # ps), w')"
      using step r(1) by simp
    show "length (?p # ps) = length (d # ds)"
      using r(2) by simp
    show "projects w' = projects w @ map (\<lambda>p. bson_doc (Project_dict p)) (?p # ps)"
      using r(3) by simp
    show "map (\<lambda>p. Some (Project.category p)) (?p # ps) =
        map (\<lambda>d. str_field d ''category'') (d # ds)"
      using r(4) cat by simp
    show "map Project.id (?p # ps) =
        map (uuid4_source w) [uuid4_calls w..<uuid4_calls w + length (d # ds)]"
      unfolding ids using r(5) by (simp add: enrich_def)
    show "status_checks w' = status_checks w"
      using r(6) by simp
    show "uuid4_source w' = uuid4_source w"
      using r(7) by simp
    show "uuid4_calls w' = uuid4_calls w + length (d # ds)"
      using r(8) by simp
  qed
qed

lemma sample_projects_shape:
  "\<forall>d\<in>set sample_projects. ProjectCreate_validate d \<noteq> None
      \<and> map_of d ''id'' = None \<and> map_of d ''created_date'' = None"
  by (simp add: sample_projects_def ProjectCreate_validate_def field_defs)

lemma sample_projects_categories:
  "map (\<lambda>d. str_field d ''category'') sample_projects =
     map Some [''Web Application'', ''Portfolio'', ''E-commerce'', ''Data Analytics'',
       ''Game Development'', ''Blockchain'']"
  by (simp add: sample_projects_def str_field_def)

lemma length_sample_projects: "length sample_projects = 6"
  by (simp add: sample_projects_def)

lemma delete_many_all: "snd (delete_many [] coll) = []"
  by (simp add: delete_many_def matches_def)

lemma str_nat_6: "str_nat 6 = ''6''"
  by simp

lemma map_Some_eq: "map (\<lambda>p. Some (f p)) ps = map Some xs \<Longrightarrow> map f ps = xs"
  by (induction ps arbitrary: xs) auto

lemma Project_dict_category [simp]:
  "map_of (bson_doc (Project_dict p)) ''category'' = Some (PyStr (Project.category p))"
  by (simp add: bson_doc_def Project_dict_def)

lemma create_sample_projects_eq:
  "\<exists>ps w'. create_sample_projects w = (Inr (''Created 6 sample projects'', ps), w')
    \<and> length ps = 6
    \<and> projects w' = map (\<lambda>p. bson_doc (Project_dict p)) ps
    \<and> map Project.category ps =
        [''Web Application'', ''Portfolio'', ''E-commerce'', ''Data Analytics'',
         ''Game Development'', ''Blockchain'']
    \<and> map Project.id ps = map (uuid4_source w) [uuid4_calls w..<uuid4_calls w + 6]
    \<and> status_checks w' = status_checks w
    \<and> uuid4_source w' = uuid4_source w
    \<and> uuid4_calls w' = uuid4_calls w + 6"
proof -
  let ?w0 = "w\<lparr>projects := snd (delete_many [] (projects w))\<rparr>"
  from insert_samples_shape [OF sample_projects_shape, of "[]" ?w0]
  obtain ps w' where
    r: "insert_samples sample_projects [] ?w0 = (Inr ps, w')"
    "length ps = length sample_projects"
    "projects w' = projects ?w0 @ map (\<lambda>p. bson_doc (Project_dict p)) ps"
    "map (\<lambda>p. Some (Project.category p)) ps = map (\<lambda>d. str_field d ''category'') sample_projects"
    "map Project.id ps =
       map (uuid4_source ?w0) [uuid4_calls ?w0..<uuid4_calls ?w0 + length sample_projects]"
    "status_checks w' = status_checks ?w0"
    "uuid4_source w' = uuid4_source ?w0"
    "uuid4_calls w' = uuid4_calls ?w0 + length sample_projects"
    by (elim exE conjE) auto
  have l: "length ps = 6"
    using r(2) by (simp add: length_sample_projects)
  have c: "map Project.category ps =
        [''Web Application'', ''Portfolio'', ''E-commerce'', ''Data Analytics'',
         ''Game Development'', ''Blockchain'']"
    using r(4) unfolding sample_projects_categories by (rule map_Some_eq)
  have a: "create_sample_projects w = (Inr (''Created 6 sample projects'', ps), w')"
    using r(1) l by (simp add: create_sample_projects_def str_nat_6 del: str_nat.simps)
  have b: "projects w' = map (\<lambda>p. bson_doc (Project_dict p)) ps"
    using r(3) by (simp add: delete_many_all)
  have i: "map Project.id ps = map (uuid4_source w) [uuid4_calls w..<uuid4_calls w + 6]"
    using r(5) by (simp add: length_sample_projects)
  have s: "status_checks w' = status_checks w"
    using r(6) by simp
  have u: "uuid4_source w' = uuid4_source w" "uuid4_calls w' = uuid4_calls w + 6"
    using r(7,8) by (simp_all add: length_sample_projects)
  show ?thesis
    by (intro exI conjI) (rule a l b c i s u)+
qed

lemma example_uuids_1_7:
  "map example_uuids [1..<1 + 6] =
     [''uuid-0'', ''uuid-00'', ''uuid-000'', ''uuid-0000'', ''uuid-00000'', ''uuid-000000'']"
  by code_simp

section \<open>What every reachable state satisfies\<close>

text \<open>
  The properties below of reading, listing and deleting are stated for a store whose
  documents are of their model, and the round trip for an identifier not in use. Such
  are all the states that requests lead to from an empty store (or from any store of
  that kind), as long as \<^verbatim>\<open>uuid4\<close> does not repeat itself.
\<close>

lemma StatusCheck_init_create:
  "StatusCheck_init (StatusCheckCreate_dict c) w =
     (Inr \<lparr>StatusCheck.id = uuid4_source w (uuid4_calls w),
           StatusCheck.client_name = StatusCheckCreate.client_name c,
           StatusCheck.timestamp = utcnow_source w (utcnow_calls w)\<rparr>,
      w\<lparr>uuid4_calls := Suc (uuid4_calls w), utcnow_calls := Suc (utcnow_calls w)\<rparr>)"
  by (simp add: StatusCheck_init_def default_id_def default_datetime_def
      StatusCheckCreate_dict_def uuid4_def utcnow_def StatusCheck_validate_def field_defs)

lemma issued_ids_mono:
  assumes "uuid4_source w' = uuid4_source w" and "uuid4_calls w \<le> uuid4_calls w'"
  shows "set (issued_ids w) \<subseteq> set (issued_ids w')"
  using assms by (auto simp: issued_ids_def)

lemma id_issued_mono:
  assumes "list_all (\<lambda>d. case str_field d ''id'' of
                       None \<Rightarrow> True
                     | Some i \<Rightarrow> i \<in> set (issued_ids w)) ds"
    and "set (issued_ids w) \<subseteq> set (issued_ids w')"
  shows "list_all (\<lambda>d. case str_field d ''id'' of
                       None \<Rightarrow> True
                     | Some i \<Rightarrow> i \<in> set (issued_ids w')) ds"
  using assms by (auto simp: list_all_iff split: option.splits)

lemma store_ok_post_projects: "store_ok w \<Longrightarrow> store_ok (snd (post_projects body w))"
proof (cases body)
  case (PyDict d)
  assume ok: "store_ok w"
  show ?thesis
  proof (cases "ProjectCreate_validate d")
    case None
    with PyDict ok show ?thesis by (simp add: post_projects_def)
  next
    case (Some c)
    let ?w = "snd (post_projects body w)"
    have w': "?w = w\<lparr>uuid4_calls := Suc (uuid4_calls w), utcnow_calls := Suc (utcnow_calls w),
        projects := projects w @ [bson_doc (Project_dict (enrich c w))]\<rparr>"
      by (simp add: PyDict post_projects_valid [OF Some] create_project_eq)
    have sub: "set (issued_ids w) \<subseteq> set (issued_ids ?w)"
      by (rule issued_ids_mono) (simp_all add: w')
    have new: "uuid4_source w (uuid4_calls w) \<in> set (issued_ids ?w)"
      by (simp add: w' issued_ids_def)
    have old: "list_all (\<lambda>d. case str_field d ''id'' of
                       None \<Rightarrow> True
                     | Some i \<Rightarrow> i \<in> set (issued_ids ?w)) (projects w)"
      using ok sub by (auto simp: store_ok_def intro: id_issued_mono)
    show ?thesis
      unfolding store_ok_def
    proof (intro conjI)
      show "list_all is_Project_doc (projects ?w)"
        using ok by (simp add: w' store_ok_def bson_doc_Project_dict)
      show "list_all is_StatusCheck_doc (status_checks ?w)"
        using ok by (simp add: w' store_ok_def)
      have "projects ?w = projects w @ [bson_doc (Project_dict (enrich c w))]"
        by (simp add: w')
      moreover have "str_field (bson_doc (Project_dict (enrich c w))) ''id'' =
          Some (uuid4_source w (uuid4_calls w))"
        by (simp add: bson_doc_Project_dict enrich_def str_field_def)
      ultimately show "list_all (\<lambda>d. case str_field d ''id'' of
                       None \<Rightarrow> True
                     | Some i \<Rightarrow> i \<in> set (issued_ids ?w)) (projects ?w)"
        using old new by simp
    qed
  qed
qed (simp_all add: post_projects_def)

lemma store_ok_post_status: "store_ok w \<Longrightarrow> store_ok (snd (post_status body w))"
proof (cases body)
  case (PyDict d)
  assume ok: "store_ok w"
  show ?thesis
  proof (cases "StatusCheckCreate_validate d")
    case None
    with PyDict ok show ?thesis by (simp add: post_status_def)
  next
    case (Some c)
    let ?s = "\<lparr>StatusCheck.id = uuid4_source w (uuid4_calls w),
           StatusCheck.client_name = StatusCheckCreate.client_name c,
           StatusCheck.timestamp = utcnow_source w (utcnow_calls w)\<rparr>"
    let ?w = "snd (post_status body w)"
    have w': "?w = w\<lparr>uuid4_calls := Suc (uuid4_calls w), utcnow_calls := Suc (utcnow_calls w),
        status_checks := status_checks w @ [bson_doc (StatusCheck_dict ?s)]\<rparr>"
      by (simp add: PyDict Some post_status_def create_status_check_def StatusCheck_init_create
          insert_one_def)
    have sub: "set (issued_ids w) \<subseteq> set (issued_ids ?w)"
      by (rule issued_ids_mono) (simp_all add: w')
    have "list_all (\<lambda>d. case str_field d ''id'' of
                       None \<Rightarrow> True
                     | Some i \<Rightarrow> i \<in> set (issued_ids ?w)) (projects w)"
      using ok sub by (auto simp: store_ok_def intro: id_issued_mono)
    moreover have "projects ?w = projects w"
      by (simp add: w')
    moreover have "list_all is_StatusCheck_doc (status_checks ?w)"
      using ok by (simp add: w' store_ok_def bson_doc_StatusCheck_dict)
    ultimately show ?thesis
      using ok by (simp add: store_ok_def)
  qed
qed (simp_all add: post_status_def)

lemma issued_ids_projects [simp]: "issued_ids (w\<lparr>projects := ds\<rparr>) = issued_ids w"
  by (simp add: issued_ids_def)

lemma set_delete_one: "set (snd (delete_one flt ds)) \<subseteq> set ds"
  by (induction ds) (auto split: prod.splits)

lemma store_ok_delete_project: "store_ok w \<Longrightarrow> store_ok (snd (delete_project project_id w))"
proof -
  assume ok: "store_ok w"
  let ?ds = "snd (delete_one [(''id'', PyStr project_id)] (projects w))"
  have w': "snd (delete_project project_id w) = w\<lparr>projects := ?ds\<rparr>"
    by (simp add: delete_project_eq)
  have "set ?ds \<subseteq> set (projects w)"
    by (rule set_delete_one)
  with ok show ?thesis
    unfolding w' store_ok_def issued_ids_projects by (auto simp: list_all_iff)
qed

lemma store_ok_get_projects: "store_ok w \<Longrightarrow> snd (get_projects w) = w"
proof -
  assume "store_ok w"
  then have "list_all is_Project_doc (take 1000 (projects w))"
    by (simp add: store_ok_def list_all_take)
  from Project_init_all_docs [OF this, of w] show ?thesis
    by (auto simp: get_projects_def find_to_list_def)
qed

lemma store_ok_get_status_checks: "store_ok w \<Longrightarrow> snd (get_status_checks w) = w"
proof -
  assume "store_ok w"
  then have "list_all is_StatusCheck_doc (take 1000 (status_checks w))"
    by (simp add: store_ok_def list_all_take)
  from StatusCheck_init_all_docs [OF this, of w] show ?thesis
    by (auto simp: get_status_checks_def find_to_list_def)
qed

lemma store_ok_get_project: "store_ok w \<Longrightarrow> snd (get_project project_id w) = w"
proof (cases "\<exists>d\<in>set (projects w). map_of d ''id'' = Some (PyStr project_id)")
  case True
  assume "store_ok w"
  then have "list_all is_Project_doc (projects w)"
    by (simp add: store_ok_def)
  from get_project_present [OF this True] show ?thesis
    by auto
next
  case False
  then show ?thesis
    by (simp add: get_project_absent)
qed

lemma store_ok_create_sample_projects:
  "store_ok w \<Longrightarrow> store_ok (snd (create_sample_projects w))"
proof -
  assume ok: "store_ok w"
  from create_sample_projects_eq [of w] obtain ps w' where
    r: "create_sample_projects w = (Inr (''Created 6 sample projects'', ps), w')"
    "projects w' = map (\<lambda>p. bson_doc (Project_dict p)) ps"
    "map Project.id ps = map (uuid4_source w) [uuid4_calls w..<uuid4_calls w + 6]"
    "status_checks w' = status_checks w"
    "uuid4_source w' = uuid4_source w"
    "uuid4_calls w' = uuid4_calls w + 6"
    by (elim exE conjE) auto
  have docs: "list_all is_Project_doc (projects w')"
    unfolding r(2) by (simp add: list_all_iff bson_doc_Project_dict)
  have "set (map Project.id ps) \<subseteq> set (issued_ids w')"
    unfolding r(3) by (auto simp: issued_ids_def r(5,6))
  then have ids: "list_all (\<lambda>d. case str_field d ''id'' of
                       None \<Rightarrow> True
                     | Some i \<Rightarrow> i \<in> set (issued_ids w')) (projects w')"
    unfolding r(2) by (auto simp: list_all_iff bson_doc_Project_dict str_field_def)
  from ok have "list_all is_StatusCheck_doc (status_checks w')"
    by (simp add: r(4) store_ok_def)
  with docs ids show ?thesis
    by (simp add: r(1) store_ok_def)
qed

lemma store_ok_serve: "store_ok w \<Longrightarrow> store_ok (serve r w)"
  by (cases r)
     (simp_all add: store_ok_post_status store_ok_post_projects store_ok_delete_project
        store_ok_create_sample_projects store_ok_get_projects store_ok_get_status_checks
        store_ok_get_project)

lemma store_ok_empty: "store_ok (w\<lparr>projects := [], status_checks := []\<rparr>)"
  by (simp add: store_ok_def)

lemma store_ok_run: "store_ok w \<Longrightarrow> store_ok (fold serve rs w)"
  by (induction rs arbitrary: w) (simp_all add: store_ok_serve)

lemma store_ok_fresh:
  assumes ok: "store_ok w" and unique: "inj (uuid4_source w)"
  shows "\<forall>x\<in>set (projects w). map_of x ''id'' \<noteq> Some (PyStr (uuid4_source w (uuid4_calls w)))"
proof
  fix x
  assume x: "x \<in> set (projects w)"
  show "map_of x ''id'' \<noteq> Some (PyStr (uuid4_source w (uuid4_calls w)))"
  proof
    assume "map_of x ''id'' = Some (PyStr (uuid4_source w (uuid4_calls w)))"
    then have "str_field x ''id'' = Some (uuid4_source w (uuid4_calls w))"
      by (simp add: str_field_def)
    with ok x have "uuid4_source w (uuid4_calls w) \<in> set (issued_ids w)"
      by (auto simp: store_ok_def list_all_iff)
    with uuid4_fresh [OF unique] show False
      by simp
  qed
qed

lemma uuid4_source_serve: "store_ok w \<Longrightarrow> uuid4_source (serve r w) = uuid4_source w"
proof (cases r)
  case (PostStatus body)
  show ?thesis
  proof (cases body)
    case (PyDict d)
    then show ?thesis
      by (cases "StatusCheckCreate_validate d")
         (simp_all add: PostStatus post_status_def create_status_check_def StatusCheck_init_create)
  qed (simp_all add: PostStatus post_status_def)
next
  case (PostProjects body)
  show ?thesis
  proof (cases body)
    case (PyDict d)
    then show ?thesis
      by (cases "ProjectCreate_validate d")
         (simp_all add: PostProjects post_projects_def create_project_eq)
  qed (simp_all add: PostProjects post_projects_def)
next
  case PostProjectsSample
  from create_sample_projects_eq [of w] obtain ps w' where
    "create_sample_projects w = (Inr (''Created 6 sample projects'', ps), w')"
    "uuid4_source w' = uuid4_source w"
    by (elim exE conjE) auto
  then show ?thesis
    by (simp add: PostProjectsSample)
qed (simp_all add: store_ok_get_projects store_ok_get_status_checks store_ok_get_project
      delete_project_eq)

lemma distinct_delete_one:
  "distinct (map f ds) \<Longrightarrow> distinct (map f (snd (delete_one flt ds)))"
proof (induction ds)
  case Nil
  then show ?case by simp
next
  case (Cons d ds)
  have "set (snd (delete_one flt ds)) \<subseteq> set ds"
    by (rule set_delete_one)
  with Cons show ?case
    by (auto split: prod.splits)
qed

lemma ids_distinct_serve:
  assumes ok: "store_ok w" and unique: "inj (uuid4_source w)" and dist: "ids_distinct w"
  shows "ids_distinct (serve r w)"
proof (cases r)
  case (PostProjects body)
  show ?thesis
  proof (cases body)
    case (PyDict d)
    show ?thesis
    proof (cases "ProjectCreate_validate d")
      case None
      with PyDict PostProjects dist show ?thesis
        by (simp add: post_projects_def)
    next
      case (Some c)
      have "Some (PyStr (uuid4_source w (uuid4_calls w))) \<notin>
          (\<lambda>d. map_of d ''id'') ` set (projects w)"
        using store_ok_fresh [OF ok unique] by force
      with dist show ?thesis
        by (simp add: PostProjects PyDict post_projects_valid [OF Some] create_project_eq
            ids_distinct_def bson_doc_Project_dict enrich_def)
    qed
  qed (use dist in \<open>simp_all add: PostProjects post_projects_def\<close>)
next
  case (PostStatus body)
  show ?thesis
  proof (cases body)
    case (PyDict d)
    with dist show ?thesis
      by (cases "StatusCheckCreate_validate d")
         (simp_all add: PostStatus post_status_def create_status_check_def
            StatusCheck_init_create ids_distinct_def)
  qed (use dist in \<open>simp_all add: PostStatus post_status_def\<close>)
next
  case (DeleteProject project_id)
  with dist show ?thesis
    by (simp add: delete_project_eq ids_distinct_def distinct_delete_one)
next
  case PostProjectsSample
  from create_sample_projects_eq [of w] obtain ps w' where
    r: "create_sample_projects w = (Inr (''Created 6 sample projects'', ps), w')"
    "projects w' = map (\<lambda>p. bson_doc (Project_dict p)) ps"
    "map Project.id ps = map (uuid4_source w) [uuid4_calls w..<uuid4_calls w + 6]"
    by (elim exE conjE) auto
  have "map (\<lambda>d. map_of d ''id'') (projects w') =
      map (\<lambda>i. Some (PyStr i)) (map Project.id ps)"
    unfolding r(2) by (simp add: bson_doc_Project_dict)
  moreover have "distinct (map (\<lambda>i. Some (PyStr i)) (map Project.id ps))"
    unfolding r(3) using unique
    by (simp add: distinct_map inj_on_def inj_def)
  ultimately show ?thesis
    by (simp add: PostProjectsSample r(1) ids_distinct_def)
qed (use ok dist in \<open>simp_all add: store_ok_get_projects store_ok_get_status_checks
      store_ok_get_project\<close>)

text \<open>Every state the server reaches.\<close>

lemma reachable_invariant:
  assumes "store_ok w" and "inj (uuid4_source w)" and "ids_distinct w"
  shows "store_ok (fold serve rs w) \<and> inj (uuid4_source (fold serve rs w))
    \<and> ids_distinct (fold serve rs w)"
  using assms
proof (induction rs arbitrary: w)
  case Nil
  then show ?case by simp
next
  case (Cons r rs)
  have "store_ok (serve r w)"
    using Cons.prems(1) by (rule store_ok_serve)
  moreover have "inj (uuid4_source (serve r w))"
    using Cons.prems(1,2) by (simp add: uuid4_source_serve)
  moreover have "ids_distinct (serve r w)"
    using Cons.prems by (rule ids_distinct_serve)
  ultimately show ?case
    using Cons.IH [of "serve r w"] by simp
qed

lemma distinct_one_match:
  "distinct (map f xs) \<Longrightarrow> v \<in> f ` set xs \<Longrightarrow> length (filter (\<lambda>d. f d = v) xs) = 1"
proof (induction xs)
  case Nil
  then show ?case by simp
next
  case (Cons x xs)
  show ?case
  proof (cases "f x = v")
    case True
    with Cons.prems have "v \<notin> f ` set xs"
      by auto
    then have "filter (\<lambda>d. f d = v) xs = []"
      by (auto simp: filter_empty_conv)
    with True show ?thesis
      by simp
  next
    case False
    with Cons show ?thesis
      by auto
  qed
qed

lemma ids_distinct_one_match:
  assumes "ids_distinct w"
    and "\<exists>d\<in>set (projects w). map_of d ''id'' = Some (PyStr project_id)"
  shows "length (filter (\<lambda>d. map_of d ''id'' = Some (PyStr project_id)) (projects w)) = 1"
proof (rule distinct_one_match)
  show "distinct (map (\<lambda>d. map_of d ''id'') (projects w))"
    using assms(1) by (simp add: ids_distinct_def)
  from assms(2) obtain d where "d \<in> set (projects w)" "map_of d ''id'' = Some (PyStr project_id)"
    by auto
  then show "Some (PyStr project_id) \<in> (\<lambda>d. map_of d ''id'') ` set (projects w)"
    by force
qed

section \<open>Creating a project\<close>



text \<open>
  C10. A body that validates keeps validating when keys outside the create shape are
  added to it, an \<^verbatim>\<open>id\<close> or a \<^verbatim>\<open>created_date\<close> among them: the answer and the new
  state are those of the body without them. The id of the answer and of the stored
  document is the one \<^verbatim>\<open>uuid4\<close> yields, and the stored date is the server's clock
  reading (as the store keeps it, in whole milliseconds).
\<close>

theorem extra_fields_ignored:
  assumes valid: "ProjectCreate_validate d = Some c"
    and extra: "\<forall>k\<in>fst ` set extra. k \<notin> set ProjectCreate_fields"
  shows "\<exists>p w'. post_projects (PyDict (d @ extra)) w = (Inr p, w')
    \<and> post_projects (PyDict d) w = (Inr p, w')
    \<and> Project.id p = uuid4_source w (uuid4_calls w)
    \<and> Project.created_date p = utcnow_source w (utcnow_calls w)
    \<and> projects w' = projects w @ [bson_doc (Project_dict p)]
    \<and> map_of (bson_doc (Project_dict p)) ''id'' = Some (PyStr (uuid4_source w (uuid4_calls w)))
    \<and> map_of (bson_doc (Project_dict p)) ''created_date'' =
        Some (PyDatetime (utcnow_source w (utcnow_calls w) div 1000 * 1000))"
proof -
  have "\<forall>k\<in>set ProjectCreate_fields. map_of (d @ extra) k = map_of d k"
    using extra by (blast intro: map_of_append_extra)
  then have "ProjectCreate_validate (d @ extra) = ProjectCreate_validate d"
    by (rule ProjectCreate_validate_cong)
  then show ?thesis
    using valid
    by (simp add: post_projects_valid create_project_eq enrich_def bson_doc_def
        Project_dict_def)
qed

theorem extra_fields_ignored_witness:
  "ProjectCreate_validate minimal_body = Some minimal_create
   \<and> map fst client_id_fields = [''id'', ''created_date'']
   \<and> post_projects (PyDict (minimal_body @ client_id_fields)) example_world =
       post_projects (PyDict minimal_body) example_world
   \<and> map_of (last (projects (snd (post_projects (PyDict (minimal_body @ client_id_fields))
         example_world)))) ''id'' = Some (PyStr ''uuid-'')
   \<and> map_of (last (projects (snd (post_projects (PyDict (minimal_body @ client_id_fields))
         example_world)))) ''created_date'' = Some (PyDatetime 1700000000123000)"
proof -
  have e: "\<forall>k\<in>fst ` set client_id_fields. k \<notin> set ProjectCreate_fields"
    by (simp add: client_id_fields_def ProjectCreate_fields_def)
  from extra_fields_ignored [OF minimal_body_valid e, of example_world] obtain p w' where
    "post_projects (PyDict (minimal_body @ client_id_fields)) example_world = (Inr p, w')"
    "post_projects (PyDict minimal_body) example_world = (Inr p, w')"
    "projects w' = projects example_world @ [bson_doc (Project_dict p)]"
    "map_of (bson_doc (Project_dict p)) ''id'' =
       Some (PyStr (uuid4_source example_world (uuid4_calls example_world)))"
    "map_of (bson_doc (Project_dict p)) ''created_date'' =
       Some (PyDatetime (utcnow_source example_world (utcnow_calls example_world) div 1000 * 1000))"
    by blast
  with minimal_body_valid show ?thesis
    by (simp add: example_world_def example_uuids_def client_id_fields_def)
qed

section \<open>Rejected requests\<close>

text \<open>
  C5. A create request is answered with the validation error 422, and the world is left
  exactly as it was (both collections included), when one of the required fields is
  missing or is not of its type: for a project, \<^verbatim>\<open>title\<close>, \<^verbatim>\<open>description\<close>,
  \<^verbatim>\<open>image_url\<close> or \<^verbatim>\<open>category\<close> not a string, or \<^verbatim>\<open>tech_stack\<close> not a list of strings;
  for a status check, \<^verbatim>\<open>client_name\<close> not a string.
\<close>

theorem invalid_create_rejected:
  "(((\<exists>k\<in>set [''title'', ''description'', ''image_url'', ''category''].
        case map_of d k of None \<Rightarrow> True | Some v \<Rightarrow> as_str v = None)
     \<or> (case map_of d ''tech_stack'' of
          Some (PyList xs) \<Rightarrow> \<exists>x\<in>set xs. as_str x = None
        | _ \<Rightarrow> True))
    \<longrightarrow> post_projects (PyDict d) w = (Inl RequestValidationError, w))
   \<and> ((case map_of d ''client_name'' of None \<Rightarrow> True | Some v \<Rightarrow> as_str v = None)
    \<longrightarrow> post_status (PyDict d) w = (Inl RequestValidationError, w))
   \<and> status_code RequestValidationError = 422"
proof (intro conjI impI)
  assume "(\<exists>k\<in>set [''title'', ''description'', ''image_url'', ''category''].
        case map_of d k of None \<Rightarrow> True | Some v \<Rightarrow> as_str v = None)
     \<or> (case map_of d ''tech_stack'' of
          Some (PyList xs) \<Rightarrow> \<exists>x\<in>set xs. as_str x = None
        | _ \<Rightarrow> True)"
  then have "str_field d ''title'' = None \<or> str_field d ''description'' = None
   \<or> list_str_field d ''tech_stack'' = None \<or> str_field d ''image_url'' = None
   \<or> str_field d ''category'' = None"
    using str_field_None [of d] list_str_field_None [of d "''tech_stack''"] by auto
  then have "ProjectCreate_validate d = None"
    by (rule ProjectCreate_validate_None)
  then show "post_projects (PyDict d) w = (Inl RequestValidationError, w)"
    by (simp add: post_projects_def)
next
  assume "case map_of d ''client_name'' of None \<Rightarrow> True | Some v \<Rightarrow> as_str v = None"
  then have "StatusCheckCreate_validate d = None"
    by (simp add: StatusCheckCreate_validate_def str_field_None)
  then show "post_status (PyDict d) w = (Inl RequestValidationError, w)"
    by (simp add: post_status_def)
qed simp

theorem invalid_create_rejected_witness:
  "post_projects (PyDict no_title_body) seeded_world = (Inl RequestValidationError, seeded_world)
   \<and> post_status (PyDict no_title_body) seeded_world = (Inl RequestValidationError, seeded_world)
   \<and> post_projects (PyDict wrong_type_body) seeded_world =
       (Inl RequestValidationError, seeded_world)
   \<and> post_status (PyDict wrong_type_body) seeded_world =
       (Inl RequestValidationError, seeded_world)"
  using invalid_create_rejected [of no_title_body seeded_world]
    invalid_create_rejected [of wrong_type_body seeded_world]
  by (simp add: no_title_body_def wrong_type_body_def)

section \<open>Empty strings and missing optional fields\<close>




text \<open>
  C8, as stated: for a body without \<^verbatim>\<open>demo_url\<close> and \<^verbatim>\<open>github_url\<close>, the stored
  document has both keys, each with the value null, and so has the dictionary of the
  answer: the keys are not absent.
\<close>

theorem absent_optional_counterexample:
  "map_of minimal_body ''demo_url'' = None \<and> map_of minimal_body ''github_url'' = None
   \<and> map_of (last (projects (snd (post_projects (PyDict minimal_body) example_world))))
        ''demo_url'' = Some PyNone
   \<and> map_of (last (projects (snd (post_projects (PyDict minimal_body) example_world))))
        ''github_url'' = Some PyNone
   \<and> map fst (Project_dict (projr (fst (post_projects (PyDict minimal_body) example_world)))) =
        [''id'', ''title'', ''description'', ''tech_stack'', ''image_url'', ''demo_url'',
         ''github_url'', ''category'', ''created_date'', ''featured'']"
  by (simp add: post_minimal_body) (simp add: minimal_body_def Project_dict_def minimal_project_def)

text \<open>
  C8, amended: for every body that validates and has no \<^verbatim>\<open>demo_url\<close> (no
  \<^verbatim>\<open>github_url\<close>) key, the field is \<^verbatim>\<open>None\<close> in the answer, and the stored document
  holds the key with the value null.
\<close>

theorem absent_optional_is_null:
  assumes valid: "ProjectCreate_validate d = Some c"
  shows "\<exists>p w'. post_projects (PyDict d) w = (Inr p, w')
    \<and> projects w' = projects w @ [bson_doc (Project_dict p)]
    \<and> (map_of d ''demo_url'' = None \<longrightarrow>
         Project.demo_url p = None
         \<and> map_of (bson_doc (Project_dict p)) ''demo_url'' = Some PyNone)
    \<and> (map_of d ''github_url'' = None \<longrightarrow>
         Project.github_url p = None
         \<and> map_of (bson_doc (Project_dict p)) ''github_url'' = Some PyNone)"
proof -
  have "map_of d ''demo_url'' = None \<longrightarrow> ProjectCreate.demo_url c = None"
    using ProjectCreate_validate_SomeD(5) [OF valid] by (auto simp: optional_str_field_def)
  moreover have "map_of d ''github_url'' = None \<longrightarrow> ProjectCreate.github_url c = None"
    using ProjectCreate_validate_SomeD(6) [OF valid] by (auto simp: optional_str_field_def)
  ultimately show ?thesis
    by (simp add: post_projects_valid [OF valid] create_project_eq enrich_def bson_doc_def
        Project_dict_def)
qed

theorem absent_optional_is_null_witness:
  "map_of minimal_body ''demo_url'' = None \<and> map_of minimal_body ''github_url'' = None
   \<and> Project.demo_url (projr (fst (post_projects (PyDict minimal_body) example_world))) = None
   \<and> Project.github_url (projr (fst (post_projects (PyDict minimal_body) example_world))) = None
   \<and> filter (\<lambda>(k, v). v = PyNone)
        (last (projects (snd (post_projects (PyDict minimal_body) example_world)))) =
      [(''demo_url'', PyNone), (''github_url'', PyNone)]"
proof -
  have a: "map_of minimal_body ''demo_url'' = None" "map_of minimal_body ''github_url'' = None"
    by (simp_all add: minimal_body_def)
  from absent_optional_is_null [OF minimal_body_valid, of example_world] a
  obtain p w' where
    r: "post_projects (PyDict minimal_body) example_world = (Inr p, w')"
    and n: "Project.demo_url p = None" "Project.github_url p = None"
    by blast
  from r n have
    "Project.demo_url (projr (fst (post_projects (PyDict minimal_body) example_world))) = None"
    "Project.github_url (projr (fst (post_projects (PyDict minimal_body) example_world))) = None"
    by simp_all
  moreover have "filter (\<lambda>(k, v). v = PyNone)
        (last (projects (snd (post_projects (PyDict minimal_body) example_world)))) =
      [(''demo_url'', PyNone), (''github_url'', PyNone)]"
    by (simp add: post_minimal_body) (simp add: Project_dict_def minimal_project_def)
  ultimately show ?thesis
    using a by simp
qed

section \<open>Reading and deleting by id\<close>

text \<open>
  C4. In a collection of project documents, fetching an id that some document carries
  answers 200 with a project of that id whose dictionary is a stored document (the
  first one with that id), and leaves the world as it was. Fetching an id that no
  document carries fails with 404.
\<close>

theorem get_project_found_or_404:
  "(list_all is_Project_doc (projects w)
      \<and> (\<exists>d\<in>set (projects w). map_of d ''id'' = Some (PyStr project_id))
     \<longrightarrow> (\<exists>p. get_project project_id w = (Inr p, w) \<and> Project.id p = project_id
           \<and> Project_dict p \<in> set (projects w)))
   \<and> ((\<forall>d\<in>set (projects w). map_of d ''id'' \<noteq> Some (PyStr project_id))
     \<longrightarrow> get_project project_id w = (Inl (HTTPException 404 ''Project not found''), w)
         \<and> status_code (HTTPException 404 ''Project not found'') = 404)"
  using get_project_present [of w project_id] get_project_absent [of w project_id]
  by auto

theorem get_project_found_or_404_witness:
  "get_project ''uuid-'' seeded_world = (Inr stored_project, seeded_world)
   \<and> get_project ''no-such-id'' seeded_world =
       (Inl (HTTPException 404 ''Project not found''), seeded_world)"
proof -
  have docs: "list_all is_Project_doc (projects seeded_world)"
    by (simp add: seeded_world_eq)
  have ex: "\<exists>d\<in>set (projects seeded_world). map_of d ''id'' = Some (PyStr ''uuid-'')"
    by (simp add: seeded_world_eq)
  have no: "\<forall>d\<in>set (projects seeded_world). map_of d ''id'' \<noteq> Some (PyStr ''no-such-id'')"
    by (simp add: seeded_world_eq)
  from get_project_found_or_404 [of seeded_world "''uuid-''"] docs ex
  obtain p where p: "get_project ''uuid-'' seeded_world = (Inr p, seeded_world)"
    "Project_dict p \<in> set (projects seeded_world)"
    by blast
  then have "p = stored_project"
    by (auto simp: seeded_world_eq dest: Project_dict_inj)
  moreover from get_project_found_or_404 [of seeded_world "''no-such-id''"] no
  have "get_project ''no-such-id'' seeded_world =
       (Inl (HTTPException 404 ''Project not found''), seeded_world)"
    by blast
  ultimately show ?thesis
    using p by simp
qed

text \<open>
  C3. Deleting by id fails with 404 exactly when no document of the collection carries
  the id, and the world is then unchanged; otherwise it answers with the message of
  success. When exactly one document carries the id, the collection afterwards is the
  old one without that document, and fetching the id fails with 404.
\<close>

theorem delete_project_404_iff_no_match:
  "fst (delete_project project_id w) =
     (if filter (\<lambda>d. map_of d ''id'' = Some (PyStr project_id)) (projects w) = []
      then Inl (HTTPException 404 ''Project not found'')
      else Inr [(''message'', PyStr ''Project deleted successfully'')])
   \<and> status_code (HTTPException 404 ''Project not found'') = 404
   \<and> (filter (\<lambda>d. map_of d ''id'' = Some (PyStr project_id)) (projects w) = []
        \<longrightarrow> snd (delete_project project_id w) = w)
   \<and> (length (filter (\<lambda>d. map_of d ''id'' = Some (PyStr project_id)) (projects w)) = 1
        \<longrightarrow> snd (delete_project project_id w) =
              w\<lparr>projects :=
                  filter (\<lambda>d. map_of d ''id'' \<noteq> Some (PyStr project_id)) (projects w)\<rparr>
            \<and> get_project project_id (snd (delete_project project_id w)) =
                (Inl (HTTPException 404 ''Project not found''),
                 snd (delete_project project_id w)))"
proof (intro conjI impI)
  show "fst (delete_project project_id w) =
     (if filter (\<lambda>d. map_of d ''id'' = Some (PyStr project_id)) (projects w) = []
      then Inl (HTTPException 404 ''Project not found'')
      else Inr [(''message'', PyStr ''Project deleted successfully'')])"
    by (simp add: delete_project_eq)
next
  assume "filter (\<lambda>d. map_of d ''id'' = Some (PyStr project_id)) (projects w) = []"
  then have "snd (delete_one [(''id'', PyStr project_id)] (projects w)) = projects w"
    by (intro delete_one_none) (simp add: filter_id_matches)
  then show "snd (delete_project project_id w) = w"
    by (simp add: delete_project_eq)
next
  assume one: "length (filter (\<lambda>d. map_of d ''id'' = Some (PyStr project_id)) (projects w)) = 1"
  then have "snd (delete_one [(''id'', PyStr project_id)] (projects w)) =
      filter (\<lambda>d. \<not> matches [(''id'', PyStr project_id)] d) (projects w)"
    by (intro delete_one_single) (simp add: filter_id_matches)
  then show s: "snd (delete_project project_id w) =
      w\<lparr>projects := filter (\<lambda>d. map_of d ''id'' \<noteq> Some (PyStr project_id)) (projects w)\<rparr>"
    by (simp add: delete_project_eq)
  show "get_project project_id (snd (delete_project project_id w)) =
      (Inl (HTTPException 404 ''Project not found''), snd (delete_project project_id w))"
    by (rule get_project_absent) (simp add: s)
qed simp

theorem delete_project_404_iff_no_match_witness:
  "delete_project ''uuid-'' seeded_world =
     (Inr [(''message'', PyStr ''Project deleted successfully'')], seeded_world\<lparr>projects := []\<rparr>)
   \<and> get_project ''uuid-'' (seeded_world\<lparr>projects := []\<rparr>) =
     (Inl (HTTPException 404 ''Project not found''), seeded_world\<lparr>projects := []\<rparr>)
   \<and> delete_project ''no-such-id'' seeded_world =
     (Inl (HTTPException 404 ''Project not found''), seeded_world)"
proof -
  have one: "length (filter (\<lambda>d. map_of d ''id'' = Some (PyStr ''uuid-'')) (projects seeded_world)) = 1"
    by (simp add: seeded_world_eq)
  have none: "filter (\<lambda>d. map_of d ''id'' = Some (PyStr ''no-such-id'')) (projects seeded_world) = []"
    by (simp add: seeded_world_eq)
  have s: "seeded_world\<lparr>projects :=
      filter (\<lambda>d. map_of d ''id'' \<noteq> Some (PyStr ''uuid-'')) (projects seeded_world)\<rparr> =
      seeded_world\<lparr>projects := []\<rparr>"
    by (simp add: seeded_world_eq)
  from delete_project_404_iff_no_match [of "''uuid-''" seeded_world] one s
  have "delete_project ''uuid-'' seeded_world =
     (Inr [(''message'', PyStr ''Project deleted successfully'')], seeded_world\<lparr>projects := []\<rparr>)"
    "get_project ''uuid-'' (seeded_world\<lparr>projects := []\<rparr>) =
     (Inl (HTTPException 404 ''Project not found''), seeded_world\<lparr>projects := []\<rparr>)"
    by (auto simp: prod_eq_iff)
  moreover from delete_project_404_iff_no_match [of "''no-such-id''" seeded_world] none
  have "delete_project ''no-such-id'' seeded_world =
     (Inl (HTTPException 404 ''Project not found''), seeded_world)"
    by (auto simp: prod_eq_iff)
  ultimately show ?thesis
    by simp
qed

section \<open>Creating, then fetching\<close>

text \<open>
  C6, as stated: the project fetched right after its creation is not the project of the
  creation's answer. The clock read 1700000000123456 microseconds; the answer carries
  that reading, the fetched record carries 1700000000123000, the date the store kept.
\<close>

theorem create_then_get_counterexample:
  "fst (post_projects (PyDict minimal_body) example_world) = Inr minimal_project
   \<and> fst (get_project (Project.id minimal_project)
        (snd (post_projects (PyDict minimal_body) example_world))) = Inr stored_project
   \<and> Project.created_date minimal_project = 1700000000123456
   \<and> Project.created_date stored_project = 1700000000123000
   \<and> stored_project \<noteq> minimal_project"
proof -
  have p: "post_projects (PyDict minimal_body) example_world = (Inr minimal_project, seeded_world)"
    by (simp add: seeded_world_def post_minimal_body)
  have g: "get_project ''uuid-'' seeded_world = (Inr stored_project, seeded_world)"
    by (simp add: get_project_def seeded_world_eq)
  have i: "Project.id minimal_project = ''uuid-''"
    by (simp add: minimal_project_def)
  have c: "Project.created_date minimal_project = 1700000000123456"
    "Project.created_date stored_project = 1700000000123000"
    by (simp_all add: minimal_project_def stored_project_def)
  then have "Project.created_date stored_project \<noteq> Project.created_date minimal_project"
    by simp
  then have "stored_project \<noteq> minimal_project"
    by auto
  with p g i c show ?thesis
    by simp
qed

text \<open>
  C6, amended: when no stored document carries the identifier about to be issued,
  fetching the id of the creation's answer gives the answer with its \<^verbatim>\<open>created_date\<close>
  cut to whole milliseconds, every other field equal; it gives the answer itself when
  the date has no part below the millisecond.
\<close>

theorem create_then_get:
  assumes valid: "ProjectCreate_validate d = Some c"
    and fresh: "\<forall>x\<in>set (projects w).
      map_of x ''id'' \<noteq> Some (PyStr (uuid4_source w (uuid4_calls w)))"
  shows "\<exists>p w'. post_projects (PyDict d) w = (Inr p, w')
    \<and> get_project (Project.id p) w' =
        (Inr (p\<lparr>Project.created_date := Project.created_date p div 1000 * 1000\<rparr>), w')
    \<and> (Project.created_date p mod 1000 = 0 \<longrightarrow> get_project (Project.id p) w' = (Inr p, w'))"
proof -
  let ?p = "enrich c w"
  let ?q = "?p\<lparr>Project.created_date := Project.created_date ?p div 1000 * 1000\<rparr>"
  let ?w = "w\<lparr>uuid4_calls := Suc (uuid4_calls w), utcnow_calls := Suc (utcnow_calls w),
        projects := projects w @ [Project_dict ?q]\<rparr>"
  have post: "post_projects (PyDict d) w = (Inr ?p, ?w)"
    by (simp add: post_projects_valid [OF valid] create_project_eq bson_doc_Project_dict)
  have id: "Project.id ?p = uuid4_source w (uuid4_calls w)" "Project.id ?q = Project.id ?p"
    by (simp_all add: enrich_def)
  from fresh have "find_one [(''id'', PyStr (Project.id ?p))] (projects w) = None"
    by (simp add: find_one_None_iff id)
  then have "find_one [(''id'', PyStr (Project.id ?p))] (projects ?w) = Some (Project_dict ?q)"
    by (simp add: find_one_append id)
  then have get: "get_project (Project.id ?p) ?w = (Inr ?q, ?w)"
    by (simp add: get_project_def)
  have same: "Project.created_date ?p mod 1000 = 0 \<longrightarrow> ?q = ?p"
    by (simp add: mod_eq_0_iff_dvd)
  show ?thesis
  proof (intro exI conjI)
    show "post_projects (PyDict d) w = (Inr ?p, ?w)"
      by (rule post)
    show "get_project (Project.id ?p) ?w = (Inr ?q, ?w)"
      by (rule get)
    show "Project.created_date ?p mod 1000 = 0 \<longrightarrow> get_project (Project.id ?p) ?w = (Inr ?p, ?w)"
      using get same by auto
  qed
qed

theorem create_then_get_witness:
  "get_project (Project.id minimal_project)
       (snd (post_projects (PyDict minimal_body) example_world)) =
     (Inr (minimal_project\<lparr>Project.created_date := 1700000000123000\<rparr>),
      snd (post_projects (PyDict minimal_body) example_world))"
proof -
  have f: "\<forall>x\<in>set (projects example_world).
      map_of x ''id'' \<noteq> Some (PyStr (uuid4_source example_world (uuid4_calls example_world)))"
    by (simp add: example_world_def)
  from create_then_get [OF minimal_body_valid f] obtain p w' where
    "post_projects (PyDict minimal_body) example_world = (Inr p, w')"
    "get_project (Project.id p) w' =
        (Inr (p\<lparr>Project.created_date := Project.created_date p div 1000 * 1000\<rparr>), w')"
    by blast
  then show ?thesis
    by (auto simp: post_minimal_body) (simp add: minimal_project_def)
qed

section \<open>Listing\<close>



section \<open>Seeding\<close>

text \<open>
  C2. Whatever the collection held before, seeding answers "Created 6 sample projects"
  with six projects, and the collection afterwards holds exactly their six documents,
  under six newly issued identifiers; the categories are those of the six samples; the
  status checks are untouched; and seeding once more leaves six documents again.
\<close>

theorem seed_leaves_six:
  "\<exists>ps w'. create_sample_projects w = (Inr (''Created 6 sample projects'', ps), w')
    \<and> projects w' = map (\<lambda>p. bson_doc (Project_dict p)) ps
    \<and> length (projects w') = 6
    \<and> map Project.id ps = map (uuid4_source w) [uuid4_calls w..<uuid4_calls w + 6]
    \<and> map Project.category ps =
        [''Web Application'', ''Portfolio'', ''E-commerce'', ''Data Analytics'',
         ''Game Development'', ''Blockchain'']
    \<and> (\<lambda>d. map_of d ''category'') ` set (projects w') =
        (\<lambda>c. Some (PyStr c)) ` {''Web Application'', ''Portfolio'', ''E-commerce'',
           ''Data Analytics'', ''Game Development'', ''Blockchain''}
    \<and> status_checks w' = status_checks w
    \<and> length (projects (snd (create_sample_projects w'))) = 6"
proof -
  from create_sample_projects_eq [of w] obtain ps w' where
    r: "create_sample_projects w = (Inr (''Created 6 sample projects'', ps), w')"
    "length ps = 6"
    "projects w' = map (\<lambda>p. bson_doc (Project_dict p)) ps"
    "map Project.category ps =
        [''Web Application'', ''Portfolio'', ''E-commerce'', ''Data Analytics'',
         ''Game Development'', ''Blockchain'']"
    "map Project.id ps = map (uuid4_source w) [uuid4_calls w..<uuid4_calls w + 6]"
    "status_checks w' = status_checks w"
    by (elim exE conjE) auto
  have "(\<lambda>d. map_of d ''category'') ` set (projects w') =
      (\<lambda>c. Some (PyStr c)) ` set (map Project.category ps)"
    unfolding r(3) by (simp add: image_image)
  then have cats: "(\<lambda>d. map_of d ''category'') ` set (projects w') =
        (\<lambda>c. Some (PyStr c)) ` {''Web Application'', ''Portfolio'', ''E-commerce'',
           ''Data Analytics'', ''Game Development'', ''Blockchain''}"
    unfolding r(4) by (simp only: list.set)
  from create_sample_projects_eq [of w'] obtain qs w'' where
    "create_sample_projects w' = (Inr (''Created 6 sample projects'', qs), w'')"
    "length qs = 6"
    "projects w'' = map (\<lambda>p. bson_doc (Project_dict p)) qs"
    by (elim exE conjE) auto
  then have again: "length (projects (snd (create_sample_projects w'))) = 6"
    by simp
  have len: "length (projects w') = 6"
    using r(2,3) by simp
  show ?thesis
    by (intro exI conjI) (rule r(1) r(3) len r(5) r(4) cats r(6) again)+
qed

theorem seed_leaves_six_witness:
  "length (projects seeded_world) = 1
   \<and> length (projects (snd (create_sample_projects seeded_world))) = 6
   \<and> map (\<lambda>d. map_of d ''id'') (projects (snd (create_sample_projects seeded_world))) =
       map (\<lambda>i. Some (PyStr i))
         [''uuid-0'', ''uuid-00'', ''uuid-000'', ''uuid-0000'', ''uuid-00000'', ''uuid-000000'']
   \<and> length (projects (snd (create_sample_projects (snd (create_sample_projects seeded_world)))))
       = 6"
proof -
  from seed_leaves_six [of seeded_world] obtain ps w' where
    r: "create_sample_projects seeded_world = (Inr (''Created 6 sample projects'', ps), w')"
    "projects w' = map (\<lambda>p. bson_doc (Project_dict p)) ps"
    "length (projects w') = 6"
    "map Project.id ps =
       map (uuid4_source seeded_world) [uuid4_calls seeded_world..<uuid4_calls seeded_world + 6]"
    "length (projects (snd (create_sample_projects w'))) = 6"
    by (elim exE conjE) auto
  have "map (\<lambda>d. map_of d ''id'') (projects w') = map (\<lambda>p. Some (PyStr (Project.id p))) ps"
    unfolding r(2) by (simp add: bson_doc_def Project_dict_def)
  also have "\<dots> = map (\<lambda>i. Some (PyStr i)) (map Project.id ps)"
    by simp
  also have "map Project.id ps =
      [''uuid-0'', ''uuid-00'', ''uuid-000'', ''uuid-0000'', ''uuid-00000'', ''uuid-000000'']"
    unfolding r(4) using example_uuids_1_7
    by (simp add: seeded_world_eq example_world_def)
  finally have ids: "map (\<lambda>d. map_of d ''id'') (projects w') =
       map (\<lambda>i. Some (PyStr i))
         [''uuid-0'', ''uuid-00'', ''uuid-000'', ''uuid-0000'', ''uuid-00000'', ''uuid-000000'']" .
  have one: "length (projects seeded_world) = 1"
    by (simp add: seeded_world_eq)
  show ?thesis
    using r(1,3,5) ids one by simp
qed

end
